theory Spec2Isabelle
  imports Main
begin

section \<open>Python exceptions and results\<close>

text \<open>
  Every \<^verbatim>\<open>raise\<close>, failed \<^verbatim>\<open>assert\<close> and propagating library error of
  \<^verbatim>\<open>utils/build_package/validate.py\<close> is a value \<open>Inl e\<close>; a normal return is
  \<open>Inr v\<close>. \<open>OtherError\<close> stands for any exception class the validator never names.
\<close>

datatype exn =
    AssertionError | AttributeError | FileNotFoundError | ImportError
  | IsADirectoryError | KeyError | NotADirectoryError | NotImplementedError
  | TypeError | ValueError | OtherError string

definition bind_r :: "exn + 'a \<Rightarrow> ('a \<Rightarrow> exn + 'b) \<Rightarrow> exn + 'b" where
  "bind_r r f = (case r of Inl e \<Rightarrow> Inl e | Inr v \<Rightarrow> f v)"

definition py_assert :: "bool \<Rightarrow> exn + unit" where
  "py_assert b = (if b then Inr () else Inl AssertionError)"

text \<open>A \<^verbatim>\<open>for\<close> loop whose body may raise: the first exception ends the loop.\<close>

fun for_each :: "('a \<Rightarrow> exn + unit) \<Rightarrow> 'a list \<Rightarrow> exn + unit" where
  "for_each f [] = Inr ()"
| "for_each f (x # xs) = (case f x of Inl e \<Rightarrow> Inl e | Inr _ \<Rightarrow> for_each f xs)"

section \<open>Python data\<close>

text \<open>
  Plain Python data: \<^verbatim>\<open>None\<close>, booleans, numbers, strings, lists and dicts. It is
  what \<^verbatim>\<open>yaml.safe_load\<close> returns for the metadata document, and what a module may
  bind to \<^verbatim>\<open>__all__\<close> (a tuple or a set behaves as a list under \<^verbatim>\<open>in\<close>). A dict is an association list in insertion order (a Python dict has no
  repeated key). Floats and dates behave as \<open>YInt\<close> under the operations the
  validator applies (\<^verbatim>\<open>in\<close>, \<^verbatim>\<open>len\<close>, iteration, subscripting by a string): all raise
  \<^verbatim>\<open>TypeError\<close>.
\<close>

datatype yaml =
    YNull | YBool bool | YInt int | YStr string
  | YSeq "yaml list" | YMap "(yaml \<times> yaml) list"

fun starts_with :: "string \<Rightarrow> string \<Rightarrow> bool" where
  "starts_with [] s = True"
| "starts_with (c # cs) [] = False"
| "starts_with (c # cs) (d # ds) = (c = d \<and> starts_with cs ds)"

fun str_contains :: "string \<Rightarrow> string \<Rightarrow> bool" where
  "str_contains k [] = (k = [])"
| "str_contains k (d # ds) = (starts_with k (d # ds) \<or> str_contains k ds)"

text \<open>
  \<^verbatim>\<open>k in v\<close> for a string \<open>k\<close>: key membership on a dict, element membership on a
  list, substring test on a string, \<^verbatim>\<open>TypeError\<close> on anything else.
\<close>

fun py_in :: "string \<Rightarrow> yaml \<Rightarrow> exn + bool" where
  "py_in k (YMap kvs) = Inr (YStr k \<in> set (map fst kvs))"
| "py_in k (YSeq xs) = Inr (YStr k \<in> set xs)"
| "py_in k (YStr s) = Inr (str_contains k s)"
| "py_in k v = Inl TypeError"

text \<open>\<^verbatim>\<open>v[k]\<close> for a string \<open>k\<close>.\<close>

fun py_getitem :: "yaml \<Rightarrow> string \<Rightarrow> exn + yaml" where
  "py_getitem (YMap kvs) k =
     (case map_of kvs (YStr k) of None \<Rightarrow> Inl KeyError | Some v \<Rightarrow> Inr v)"
| "py_getitem v k = Inl TypeError"

fun py_len :: "yaml \<Rightarrow> exn + nat" where
  "py_len (YMap kvs) = Inr (length kvs)"
| "py_len (YSeq xs) = Inr (length xs)"
| "py_len (YStr s) = Inr (length s)"
| "py_len v = Inl TypeError"

text \<open>The items a \<^verbatim>\<open>for\<close> loop over \<open>v\<close> visits.\<close>

fun py_iter :: "yaml \<Rightarrow> exn + yaml list" where
  "py_iter (YMap kvs) = Inr (map fst kvs)"
| "py_iter (YSeq xs) = Inr xs"
| "py_iter (YStr s) = Inr (map (\<lambda>c. YStr [c]) s)"
| "py_iter v = Inl TypeError"

definition assert_in :: "string \<Rightarrow> yaml \<Rightarrow> exn + unit" where
  "assert_in k v = bind_r (py_in k v) py_assert"

text \<open>
  Lines 146--152 of \<^verbatim>\<open>test_contrib\<close>: the four required top-level keys,
  \<^verbatim>\<open>n_examples = len(meta_data["examples"])\<close>, and the three required keys of every
  example. The value is \<^verbatim>\<open>n_examples\<close>.
\<close>

definition check_required_keys :: "yaml \<Rightarrow> exn + nat" where
  "check_required_keys meta_data =
     bind_r (for_each (\<lambda>k. assert_in k meta_data)
               [''name'', ''short_description'', ''authors'', ''examples'']) (\<lambda>_.
     bind_r (py_getitem meta_data ''examples'') (\<lambda>examples.
     bind_r (py_len examples) (\<lambda>n_examples.
     bind_r (py_iter examples) (\<lambda>items.
     bind_r (for_each (\<lambda>example.
                bind_r (assert_in ''description'' example) (\<lambda>_.
                bind_r (assert_in ''model_dimension'' example) (\<lambda>_.
                assert_in ''data_dimension'' example))) items) (\<lambda>_.
     Inr n_examples)))))"

text \<open>
  Lines 153--162: each optional section (\<^verbatim>\<open>citation\<close>, \<^verbatim>\<open>contacts\<close>,
  \<^verbatim>\<open>extra_websites\<close>) is checked only when its key is present.
\<close>

definition check_optional_sections :: "yaml \<Rightarrow> exn + unit" where
  "check_optional_sections meta_data =
     bind_r (bind_r (py_in ''citation'' meta_data) (\<lambda>present.
        if present
        then bind_r (py_getitem meta_data ''citation'') (assert_in ''doi'')
        else Inr ())) (\<lambda>_.
     bind_r (bind_r (py_in ''contacts'' meta_data) (\<lambda>present.
        if present
        then bind_r (py_getitem meta_data ''contacts'') (\<lambda>contacts.
             bind_r (py_iter contacts) (for_each (\<lambda>contact.
               bind_r (assert_in ''name'' contact) (\<lambda>_. assert_in ''email'' contact))))
        else Inr ())) (\<lambda>_.
     bind_r (py_in ''extra_websites'' meta_data) (\<lambda>present.
        if present
        then bind_r (py_getitem meta_data ''extra_websites'') (\<lambda>websites.
             bind_r (py_iter websites) (for_each (\<lambda>website.
               bind_r (assert_in ''name'' website) (\<lambda>_. assert_in ''link'' website))))
        else Inr ())))"

section \<open>The filesystem\<close>

text \<open>
  A filesystem maps a path to what is there. Of a regular file the validator observes
  its size (\<^verbatim>\<open>os.stat(p).st_size\<close>) and what \<^verbatim>\<open>yaml.safe_load\<close> makes of its
  content; of a directory, its size and the names \<^verbatim>\<open>os.listdir\<close> returns.
\<close>

datatype fsnode =
    RegFile nat "exn + yaml"
  | Directory nat "string list"

type_synonym filesystem = "string \<Rightarrow> fsnode option"

definition listdir :: "filesystem \<Rightarrow> string \<Rightarrow> exn + string list" where
  "listdir fs p = (case fs p of
       None \<Rightarrow> Inl FileNotFoundError
     | Some (RegFile sz doc) \<Rightarrow> Inl NotADirectoryError
     | Some (Directory sz names) \<Rightarrow> Inr names)"

definition isdir :: "filesystem \<Rightarrow> string \<Rightarrow> bool" where
  "isdir fs p = (case fs p of Some (Directory sz names) \<Rightarrow> True | _ \<Rightarrow> False)"

definition st_size :: "filesystem \<Rightarrow> string \<Rightarrow> exn + nat" where
  "st_size fs p = (case fs p of
       None \<Rightarrow> Inl FileNotFoundError
     | Some (RegFile sz doc) \<Rightarrow> Inr sz
     | Some (Directory sz names) \<Rightarrow> Inr sz)"

text \<open>\<^verbatim>\<open>with open(p, "r") as stream: yaml.safe_load(stream)\<close>.\<close>

definition safe_load :: "filesystem \<Rightarrow> string \<Rightarrow> exn + yaml" where
  "safe_load fs p = (case fs p of
       None \<Rightarrow> Inl FileNotFoundError
     | Some (RegFile sz doc) \<Rightarrow> doc
     | Some (Directory sz names) \<Rightarrow> Inl IsADirectoryError)"

definition CONTRIB_FOLDER :: string where
  "CONTRIB_FOLDER = ''contrib''"

definition MODULE_NAME :: string where
  "MODULE_NAME = ''cofi-espresso''"

definition get_folder_content :: "filesystem \<Rightarrow> string \<Rightarrow> exn + (string list \<times> string list)" where
  "get_folder_content fs folder_name =
     bind_r (listdir fs folder_name) (\<lambda>names.
     Inr (names, map (\<lambda>name. folder_name @ ''/'' @ name) names))"

definition all_contribs :: "filesystem \<Rightarrow> exn + (string \<times> string) list" where
  "all_contribs fs =
     bind_r (get_folder_content fs CONTRIB_FOLDER) (\<lambda>(names, paths). Inr (zip names paths))"

section \<open>The build-phase argument\<close>

definition pre_build :: "string list \<Rightarrow> exn + bool" where
  "pre_build argv =
     (if length argv > 1
      then (let pre_post = last argv
            in if pre_post \<notin> set [''pre'', ''post''] then Inl ValueError
               else Inr (pre_post = ''pre''))
      else Inr (''pre'' = ''pre''))"

section \<open>Values returned by a contribution\<close>

text \<open>
  The validator never looks inside a value a contribution returns; it observes only
  \<^verbatim>\<open>np.ndim(obj)\<close> (which may itself raise, for instance on a ragged nested list),
  \<^verbatim>\<open>isinstance(obj, Figure)\<close>, and, for tuple unpacking, what iterating the value
  gives: the items it yields, or the exception the iteration raises (\<^verbatim>\<open>TypeError\<close>
  for a value that is not iterable, and whatever its \<^verbatim>\<open>__iter__\<close> or
  \<^verbatim>\<open>__next__\<close> raises otherwise). A value is modelled by these three observations.
\<close>

datatype pyval =
  PyVal (np_ndim: "exn + nat") (is_Figure: bool) (py_items: "exn + pyval list")

definition array_like :: "pyval \<Rightarrow> exn + bool" where
  "array_like obj = bind_r (np_ndim obj) (\<lambda>n. Inr (n \<noteq> 0))"

definition assert_array_like :: "pyval \<Rightarrow> exn + unit" where
  "assert_array_like obj = bind_r (array_like obj) py_assert"

text \<open>
  \<^verbatim>\<open>a, b = v\<close>: an exception of the iteration propagates; any number of items other
  than two is a \<^verbatim>\<open>ValueError\<close>.
\<close>

definition unpack2 :: "pyval \<Rightarrow> exn + (pyval \<times> pyval)" where
  "unpack2 v = (case py_items v of
       Inl e \<Rightarrow> Inl e
     | Inr [a, b] \<Rightarrow> Inr (a, b)
     | Inr items \<Rightarrow> Inl ValueError)"

section \<open>A loaded contribution module\<close>

text \<open>
  A call into the module. A module keeps state between calls
  (\<^verbatim>\<open>set_example_number\<close> selects the example the other functions use), so what a
  call returns or raises is a function \<open>respond\<close> of the calls made so far and the
  call itself. \<open>attrs\<close> lists the names the module defines; looking up any other
  name raises \<open>lookup_error\<close> of that name, which is \<^verbatim>\<open>AttributeError\<close> unless the
  module has a \<^verbatim>\<open>__getattr__\<close> of its own that raises something else.
  \<open>dunder_all\<close> is what the module binds to \<^verbatim>\<open>__all__\<close>, \<open>None\<close> when it binds
  nothing.
\<close>

datatype call =
    SetExampleNumber nat
  | SuggestedModel
  | Data
  | Forward pyval bool
  | Jacobian pyval
  | PlotModel pyval
  | PlotData pyval

fun call_name :: "call \<Rightarrow> string" where
  "call_name (SetExampleNumber i) = ''set_example_number''"
| "call_name SuggestedModel = ''suggested_model''"
| "call_name Data = ''data''"
| "call_name (Forward m j) = ''forward''"
| "call_name (Jacobian m) = ''jacobian''"
| "call_name (PlotModel m) = ''plot_model''"
| "call_name (PlotData d) = ''plot_data''"

record module =
  dunder_all :: "yaml option"
  attrs :: "string list"
  lookup_error :: "string \<Rightarrow> exn"
  respond :: "call list \<Rightarrow> call \<Rightarrow> exn + pyval"

text \<open>
  The state a test run changes: the interpreter's \<^verbatim>\<open>sys.path\<close> and the calls made
  into the contribution under test, oldest first.
\<close>

record pstate =
  sys_path :: "string list"
  calls :: "call list"

definition and_then ::
  "(pstate \<Rightarrow> (exn + 'a) \<times> pstate) \<Rightarrow> ('a \<Rightarrow> pstate \<Rightarrow> (exn + 'b) \<times> pstate)
     \<Rightarrow> pstate \<Rightarrow> (exn + 'b) \<times> pstate" where
  "and_then f g st = (case f st of (Inl e, st') \<Rightarrow> (Inl e, st') | (Inr v, st') \<Rightarrow> g v st')"

definition pure_step :: "exn + 'a \<Rightarrow> pstate \<Rightarrow> (exn + 'a) \<times> pstate" where
  "pure_step r st = (r, st)"

text \<open>
  \<^verbatim>\<open>contrib_mod.f(args)\<close>: when the module has no such name the attribute lookup
  raises and no call is made; otherwise the call is made and recorded, whether it
  returns or raises.
\<close>

definition invoke :: "module \<Rightarrow> call \<Rightarrow> pstate \<Rightarrow> (exn + pyval) \<times> pstate" where
  "invoke m c st =
     (if call_name c \<in> set (attrs m)
      then (respond m (calls st) c, st\<lparr>calls := calls st @ [c]\<rparr>)
      else (Inl (lookup_error m (call_name c)), st))"

section \<open>The checks of \<^verbatim>\<open>test_contrib\<close>\<close>

record env =
  files :: filesystem
  import_module :: "string list \<Rightarrow> string \<Rightarrow> exn + module"

text \<open>Checks 1 and 2 (lines 88--97).\<close>

definition required_files :: "string list" where
  "required_files = [''README.md'', ''LICENCE'', ''metadata.yml'', ''__init__.py'']"

definition check_layout :: "filesystem \<Rightarrow> string \<Rightarrow> string \<Rightarrow> exn + unit" where
  "check_layout fs contrib_name contrib_sub_folder =
     bind_r (get_folder_content fs contrib_sub_folder) (\<lambda>(names, paths).
     bind_r (py_assert (contrib_name @ ''.py'' \<in> set names)) (\<lambda>_.
     for_each (\<lambda>file. py_assert (file \<in> set names)) required_files))"

text \<open>
  Check 3, loading (lines 100--105). \<^verbatim>\<open>sys.path.insert(1, CONTRIB_FOLDER)\<close> puts
  the folder at index 1, or at the end of a shorter list.
\<close>

definition list_insert :: "nat \<Rightarrow> 'a \<Rightarrow> 'a list \<Rightarrow> 'a list" where
  "list_insert i x xs = take i xs @ x # drop i xs"

definition load_module :: "env \<Rightarrow> string \<Rightarrow> bool \<Rightarrow> pstate \<Rightarrow> (exn + module) \<times> pstate" where
  "load_module ev contrib_name pre st =
     (if pre
      then (let st' = st\<lparr>sys_path := list_insert 1 CONTRIB_FOLDER (sys_path st)\<rparr>
            in (import_module ev (sys_path st') contrib_name, st'))
      else (import_module ev (sys_path st) (MODULE_NAME @ ''.'' @ contrib_name), st))"

text \<open>
  Check 3, the export list (lines 106--116): \<^verbatim>\<open>assert fun in contrib_mod.__all__\<close>
  for each standard name, whatever kind of value \<^verbatim>\<open>__all__\<close> is.
\<close>

definition std_funcs :: "string list" where
  "std_funcs = [''set_example_number'', ''suggested_model'', ''data'', ''forward'',
                ''jacobian'', ''plot_model'', ''plot_data'']"

definition check_exports :: "module \<Rightarrow> exn + unit" where
  "check_exports contrib_mod =
     for_each (\<lambda>fun. case dunder_all contrib_mod of
                        None \<Rightarrow> Inl (lookup_error contrib_mod ''__all__'')
                      | Some exported \<Rightarrow> assert_in fun exported) std_funcs"

text \<open>Check 4 (lines 119--125): the four calls are made first, then the three asserts.\<close>

definition probe_required :: "module \<Rightarrow> pstate \<Rightarrow> (exn + pyval \<times> pyval) \<times> pstate" where
  "probe_required contrib_mod =
     and_then (invoke contrib_mod (SetExampleNumber 0)) (\<lambda>_.
     and_then (invoke contrib_mod SuggestedModel) (\<lambda>model.
     and_then (invoke contrib_mod Data) (\<lambda>data.
     and_then (invoke contrib_mod (Forward model False)) (\<lambda>synthetics.
     pure_step
       (bind_r (assert_array_like model) (\<lambda>_.
        bind_r (assert_array_like data) (\<lambda>_.
        bind_r (assert_array_like synthetics) (\<lambda>_.
        Inr (model, data)))))))))"

text \<open>
  Check 5 (lines 128--141). \<^verbatim>\<open>try: body  except NotImplementedError: pass
  else: checks\<close>: a \<^verbatim>\<open>NotImplementedError\<close> from the body is swallowed, any other
  exception propagates, and the \<^verbatim>\<open>else\<close> clause runs on the body's value outside
  the handler.
\<close>

definition try_else :: "exn + 'a \<Rightarrow> ('a \<Rightarrow> exn + unit) \<Rightarrow> exn + unit" where
  "try_else body els = (case body of
       Inl e \<Rightarrow> (if e = NotImplementedError then Inr () else Inl e)
     | Inr v \<Rightarrow> els v)"

definition probe_forward_jacobian :: "module \<Rightarrow> pyval \<Rightarrow> pstate \<Rightarrow> (exn + unit) \<times> pstate" where
  "probe_forward_jacobian contrib_mod model st =
     (case invoke contrib_mod (Forward model True) st of (r, st') \<Rightarrow>
        (try_else (bind_r r unpack2) (\<lambda>(synthetics, jacobian).
           bind_r (assert_array_like synthetics) (\<lambda>_. assert_array_like jacobian)), st'))"

definition probe_jacobian :: "module \<Rightarrow> pyval \<Rightarrow> pstate \<Rightarrow> (exn + unit) \<times> pstate" where
  "probe_jacobian contrib_mod model st =
     (case invoke contrib_mod (Jacobian model) st of (r, st') \<Rightarrow>
        (try_else r assert_array_like, st'))"

definition probe_plot_model :: "module \<Rightarrow> pyval \<Rightarrow> pstate \<Rightarrow> (exn + unit) \<times> pstate" where
  "probe_plot_model contrib_mod model st =
     (case invoke contrib_mod (PlotModel model) st of (r, st') \<Rightarrow>
        (try_else r (\<lambda>fig_model. py_assert (is_Figure fig_model)), st'))"

definition probe_plot_data :: "module \<Rightarrow> pyval \<Rightarrow> pstate \<Rightarrow> (exn + unit) \<times> pstate" where
  "probe_plot_data contrib_mod data st =
     (case invoke contrib_mod (PlotData data) st of (r, st') \<Rightarrow>
        (try_else r (\<lambda>fig_data. py_assert (is_Figure fig_data)), st'))"

definition probe_optional :: "module \<Rightarrow> pyval \<Rightarrow> pyval \<Rightarrow> pstate \<Rightarrow> (exn + unit) \<times> pstate" where
  "probe_optional contrib_mod model data =
     and_then (probe_forward_jacobian contrib_mod model) (\<lambda>_.
     and_then (probe_jacobian contrib_mod model) (\<lambda>_.
     and_then (probe_plot_model contrib_mod model) (\<lambda>_.
     probe_plot_data contrib_mod data)))"

text \<open>Check 6 (lines 144--162): parse the metadata file, then the two groups of keys.\<close>

definition check_metadata :: "filesystem \<Rightarrow> string \<Rightarrow> exn + nat" where
  "check_metadata fs contrib_sub_folder =
     bind_r (safe_load fs (contrib_sub_folder @ ''/metadata.yml'')) (\<lambda>meta_data.
     bind_r (check_required_keys meta_data) (\<lambda>n_examples.
     bind_r (check_optional_sections meta_data) (\<lambda>_.
     Inr n_examples)))"

text \<open>Check 7 (lines 165--166): \<^verbatim>\<open>for i in range(n_examples)\<close>.\<close>

fun for_range :: "(nat \<Rightarrow> pstate \<Rightarrow> (exn + 'a) \<times> pstate) \<Rightarrow> nat list \<Rightarrow> pstate
                    \<Rightarrow> (exn + unit) \<times> pstate" where
  "for_range body [] st = (Inr (), st)"
| "for_range body (i # is) st =
     (case body i st of (Inl e, st') \<Rightarrow> (Inl e, st') | (Inr _, st') \<Rightarrow> for_range body is st')"

definition cross_check :: "module \<Rightarrow> nat \<Rightarrow> pstate \<Rightarrow> (exn + unit) \<times> pstate" where
  "cross_check contrib_mod n_examples =
     for_range (\<lambda>i. invoke contrib_mod (SetExampleNumber i)) [0..<n_examples]"

text \<open>Check 8 (lines 169--170).\<close>

definition check_licence :: "filesystem \<Rightarrow> string \<Rightarrow> exn + unit" where
  "check_licence fs contrib_sub_folder =
     bind_r (st_size fs (contrib_sub_folder @ ''/LICENCE'')) (\<lambda>size. py_assert (size \<noteq> 0))"

text \<open>
  \<^verbatim>\<open>test_contrib(contrib, pre_build)\<close>: the eight checks in the order of the source,
  the first exception ending the test.
\<close>

definition test_contrib :: "env \<Rightarrow> string \<times> string \<Rightarrow> bool \<Rightarrow> pstate \<Rightarrow> (exn + unit) \<times> pstate" where
  "test_contrib ev contrib pre =
     (case contrib of (contrib_name, contrib_sub_folder) \<Rightarrow>
     and_then (pure_step (check_layout (files ev) contrib_name contrib_sub_folder)) (\<lambda>_.
     and_then (load_module ev contrib_name pre) (\<lambda>contrib_mod.
     and_then (pure_step (check_exports contrib_mod)) (\<lambda>_.
     and_then (probe_required contrib_mod) (\<lambda>(model, data).
     and_then (probe_optional contrib_mod model data) (\<lambda>_.
     and_then (pure_step (check_metadata (files ev) contrib_sub_folder)) (\<lambda>n_examples.
     and_then (cross_check contrib_mod n_examples) (\<lambda>_.
     pure_step (check_licence (files ev) contrib_sub_folder)))))))))"

section \<open>The test run\<close>

text \<open>
  The test runner evaluates the fixture \<^verbatim>\<open>pre_build\<close> before each test; when the
  fixture raises, the test body does not run. It runs \<^verbatim>\<open>test_contrib\<close> once for each
  parameter \<^verbatim>\<open>all_contribs()\<close> lists, in order, each on a module of its own, and a
  failing test does not stop the next. The interpreter, and with it \<^verbatim>\<open>sys.path\<close>,
  is shared by the whole run.
\<close>

definition run_test :: "env \<Rightarrow> string list \<Rightarrow> string \<times> string \<Rightarrow> pstate \<Rightarrow> (exn + unit) \<times> pstate" where
  "run_test ev argv contrib st =
     (case pre_build argv of
        Inl e \<Rightarrow> (Inl e, st)
      | Inr pre \<Rightarrow> test_contrib ev contrib pre st)"

fun run_tests :: "env \<Rightarrow> string list \<Rightarrow> (string \<times> string) list \<Rightarrow> string list
                    \<Rightarrow> (exn + unit) list \<times> string list" where
  "run_tests ev argv [] path = ([], path)"
| "run_tests ev argv (contrib # rest) path =
     (case run_test ev argv contrib \<lparr>sys_path = path, calls = []\<rparr> of (r, st) \<Rightarrow>
        (case run_tests ev argv rest (sys_path st) of (rs, path') \<Rightarrow> (r # rs, path')))"

section \<open>Auxiliary definitions\<close>

text \<open>
  The part of \<^verbatim>\<open>test_contrib\<close> before the metadata file is opened (checks 1 to 5),
  returning the loaded module; \<open>test_contrib_split\<close> below shows that
  \<open>test_contrib\<close> is this part followed by checks 6 to 8.
\<close>

definition checks_1_to_5 :: "env \<Rightarrow> string \<times> string \<Rightarrow> bool \<Rightarrow> pstate \<Rightarrow> (exn + module) \<times> pstate" where
  "checks_1_to_5 ev contrib pre =
     (case contrib of (contrib_name, contrib_sub_folder) \<Rightarrow>
     and_then (pure_step (check_layout (files ev) contrib_name contrib_sub_folder)) (\<lambda>_.
     and_then (load_module ev contrib_name pre) (\<lambda>contrib_mod.
     and_then (pure_step (check_exports contrib_mod)) (\<lambda>_.
     and_then (probe_required contrib_mod) (\<lambda>(model, data).
     and_then (probe_optional contrib_mod model data) (\<lambda>_.
     pure_step (Inr contrib_mod)))))))"

text \<open>
  The specification's contract for an optional entry point, in its own words: either the
  not-implemented signal is raised, or the result satisfies its type contract.
\<close>

definition spec_accepted :: "(pyval \<Rightarrow> bool) \<Rightarrow> exn + pyval \<Rightarrow> bool" where
  "spec_accepted contract outcome = (case outcome of
       Inl e \<Rightarrow> e = NotImplementedError
     | Inr v \<Rightarrow> contract v)"

definition is_array_like :: "pyval \<Rightarrow> bool" where
  "is_array_like v = (case np_ndim v of Inl e \<Rightarrow> False | Inr n \<Rightarrow> n \<noteq> 0)"

definition two_array_likes :: "pyval \<Rightarrow> bool" where
  "two_array_likes v = (case py_items v of
       Inr [a, b] \<Rightarrow> is_array_like a \<and> is_array_like b
     | _ \<Rightarrow> False)"

subsection \<open>A small contribution\<close>

text \<open>
  A contribution \<^verbatim>\<open>demo\<close> that implements the four required functions, accepts
  example numbers 0 and 1, and raises \<^verbatim>\<open>NotImplementedError\<close> from every optional
  function.
\<close>

definition py_scalar :: pyval where
  "py_scalar = PyVal (Inr 0) False (Inl TypeError)"

definition py_vector :: pyval where
  "py_vector = PyVal (Inr 1) False (Inr [py_scalar, py_scalar, py_scalar])"

definition py_figure :: pyval where
  "py_figure = PyVal (Inr 0) True (Inl TypeError)"

definition demo_respond :: "call list \<Rightarrow> call \<Rightarrow> exn + pyval" where
  "demo_respond history c = (case c of
       SetExampleNumber i \<Rightarrow> (if i < 2 then Inr py_scalar else Inl ValueError)
     | SuggestedModel \<Rightarrow> Inr py_vector
     | Data \<Rightarrow> Inr py_vector
     | Forward model with_jacobian \<Rightarrow>
         (if with_jacobian then Inl NotImplementedError else Inr py_vector)
     | Jacobian model \<Rightarrow> Inl NotImplementedError
     | PlotModel model \<Rightarrow> Inl NotImplementedError
     | PlotData data \<Rightarrow> Inl NotImplementedError)"

definition demo_module :: module where
  "demo_module = \<lparr>dunder_all = Some (YSeq (map YStr std_funcs)), attrs = std_funcs,
                   lookup_error = (\<lambda>name. AttributeError), respond = demo_respond\<rparr>"

definition example_record :: yaml where
  "example_record = YMap [(YStr ''description'', YStr ''layered earth''),
                          (YStr ''model_dimension'', YInt 3),
                          (YStr ''data_dimension'', YInt 3)]"

definition demo_metadata :: "yaml list \<Rightarrow> yaml" where
  "demo_metadata examples = YMap
     [(YStr ''name'', YStr ''demo''),
      (YStr ''short_description'', YStr ''a demonstration''),
      (YStr ''authors'', YSeq [YStr ''A. Author'']),
      (YStr ''examples'', YSeq examples)]"

definition contrib_entries :: "string \<Rightarrow> yaml list \<Rightarrow> nat \<Rightarrow> (string \<times> fsnode) list" where
  "contrib_entries name examples licence_size =
     [(''contrib/'' @ name, Directory 4096
          [name @ ''.py'', ''README.md'', ''LICENCE'', ''metadata.yml'', ''__init__.py'']),
      (''contrib/'' @ name @ ''/metadata.yml'', RegFile 300 (Inr (demo_metadata examples))),
      (''contrib/'' @ name @ ''/LICENCE'', RegFile licence_size (Inr (YStr ''MIT'')))]"

definition demo_files :: "yaml list \<Rightarrow> nat \<Rightarrow> filesystem" where
  "demo_files examples licence_size = map_of
     ((''contrib'', Directory 4096 [''demo'']) # contrib_entries ''demo'' examples licence_size)"

definition demo_import :: "module \<Rightarrow> string list \<Rightarrow> string \<Rightarrow> exn + module" where
  "demo_import m path name =
     (if name \<in> set [''demo'', ''other''] \<and> ''contrib'' \<in> set path then Inr m
      else Inl ImportError)"

definition demo_env :: "module \<Rightarrow> yaml list \<Rightarrow> nat \<Rightarrow> env" where
  "demo_env m examples licence_size =
     \<lparr>files = demo_files examples licence_size, import_module = demo_import m\<rparr>"

definition demo_start :: pstate where
  "demo_start = \<lparr>sys_path = [[]], calls = []\<rparr>"

text \<open>
  A contributions root holding two contributions, and one holding a contribution and a
  plain file.
\<close>

definition pair_env :: env where
  "pair_env =
     \<lparr>files = map_of ((''contrib'', Directory 4096 [''demo'', ''other''])
                 # contrib_entries ''demo'' [example_record] 1070
                 @ contrib_entries ''other'' [] 1070),
      import_module = demo_import demo_module\<rparr>"

definition mixed_root_files :: filesystem where
  "mixed_root_files = map_of
     ((''contrib'', Directory 4096 [''demo'', ''README.md''])
      # (''contrib/README.md'', RegFile 120 (Inr (YStr ''# Contributions'')))
      # contrib_entries ''demo'' [example_record] 1070)"

text \<open>
  The export list of \<^verbatim>\<open>contrib/magnetotelluric_1D/__init__.py\<close>, on a module
  that otherwise behaves as \<open>demo_module\<close>.
\<close>

definition class_based_module :: module where
  "class_based_module = demo_module\<lparr>dunder_all := Some (YSeq [YStr ''Magnetotelluric1D''])\<rparr>"

text \<open>An example record without \<^verbatim>\<open>model_dimension\<close>.\<close>

definition incomplete_record :: yaml where
  "incomplete_record = YMap [(YStr ''description'', YStr ''half space''),
                             (YStr ''data_dimension'', YInt 3)]"

text \<open>The state right after \<^verbatim>\<open>demo\<close> has been loaded in pre-packaging mode.\<close>

definition demo_loaded :: pstate where
  "demo_loaded = \<lparr>sys_path = [[], ''contrib''], calls = []\<rparr>"

text \<open>A module whose \<^verbatim>\<open>data()\<close> returns a bare number.\<close>

definition scalar_data_module :: module where
  "scalar_data_module = demo_module\<lparr>respond :=
     (\<lambda>history c. case c of Data \<Rightarrow> Inr py_scalar | _ \<Rightarrow> demo_respond history c)\<rparr>"

text \<open>
  A module that implements every optional function: \<^verbatim>\<open>forward\<close> with
  \<^verbatim>\<open>with_jacobian=True\<close> returns a tuple of a vector and a matrix (on which
  \<^verbatim>\<open>np.ndim\<close> raises, the tuple being ragged), \<^verbatim>\<open>jacobian\<close> a matrix, the plot
  functions a figure. Three variants of it break one optional function each.
\<close>

definition py_matrix :: pyval where
  "py_matrix = PyVal (Inr 2) False (Inr [py_vector, py_vector, py_vector])"

definition py_pair :: "pyval \<Rightarrow> pyval \<Rightarrow> pyval" where
  "py_pair a b = PyVal (Inl ValueError) False (Inr [a, b])"

definition full_respond :: "call list \<Rightarrow> call \<Rightarrow> exn + pyval" where
  "full_respond history c = (case c of
       SetExampleNumber i \<Rightarrow> (if i < 2 then Inr py_scalar else Inl ValueError)
     | SuggestedModel \<Rightarrow> Inr py_vector
     | Data \<Rightarrow> Inr py_vector
     | Forward model with_jacobian \<Rightarrow>
         (if with_jacobian then Inr (py_pair py_vector py_matrix) else Inr py_vector)
     | Jacobian model \<Rightarrow> Inr py_matrix
     | PlotModel model \<Rightarrow> Inr py_figure
     | PlotData data \<Rightarrow> Inr py_figure)"

definition full_module :: module where
  "full_module = \<lparr>dunder_all = Some (YSeq (map YStr std_funcs)), attrs = std_funcs,
                   lookup_error = (\<lambda>name. AttributeError), respond = full_respond\<rparr>"

definition axes_plot_module :: module where
  "axes_plot_module = full_module\<lparr>respond :=
     (\<lambda>history c. case c of PlotModel model \<Rightarrow> Inr py_vector | _ \<Rightarrow> full_respond history c)\<rparr>"

definition raising_jacobian_module :: module where
  "raising_jacobian_module = full_module\<lparr>respond :=
     (\<lambda>history c. case c of Jacobian model \<Rightarrow> Inl ValueError | _ \<Rightarrow> full_respond history c)\<rparr>"

definition no_jacobian_module :: module where
  "no_jacobian_module = full_module\<lparr>attrs :=
     [''set_example_number'', ''suggested_model'', ''data'', ''forward'',
      ''plot_model'', ''plot_data'']\<rparr>"

text \<open>The state after \<^verbatim>\<open>demo\<close> has answered the four required calls.\<close>

definition demo_probed :: pstate where
  "demo_probed = \<lparr>sys_path = [[], ''contrib''],
     calls = [SetExampleNumber 0, SuggestedModel, Data, Forward py_vector False]\<rparr>"

text \<open>The state after \<^verbatim>\<open>demo\<close> has passed checks 1 to 5.\<close>

definition demo_checked :: pstate where
  "demo_checked = \<lparr>sys_path = [[], ''contrib''],
     calls = [SetExampleNumber 0, SuggestedModel, Data, Forward py_vector False,
              Forward py_vector True, Jacobian py_vector, PlotModel py_vector,
              PlotData py_vector]\<rparr>"

text \<open>
  A module that binds \<^verbatim>\<open>__all__\<close> to one string instead of a list of names. The
  string names six functions; \<^verbatim>\<open>data\<close> occurs in it only inside \<^verbatim>\<open>plot_data\<close>.
\<close>

definition names_string :: string where
  "names_string = ''set_example_number suggested_model forward jacobian plot_model plot_data''"

definition string_all_module :: module where
  "string_all_module = demo_module\<lparr>dunder_all := Some (YStr names_string)\<rparr>"

text \<open>
  The two further ways a \<^verbatim>\<open>NotImplementedError\<close> can arise inside the \<^verbatim>\<open>try\<close> of an
  optional probe: from the attribute lookup, and from unpacking the value the call
  returned.
\<close>

definition lookup_signals :: "module \<Rightarrow> string \<Rightarrow> bool" where
  "lookup_signals m name =
     (name \<notin> set (attrs m) \<and> lookup_error m name = NotImplementedError)"

definition unpacking_signals :: "exn + pyval \<Rightarrow> bool" where
  "unpacking_signals outcome = (case outcome of
       Inl e \<Rightarrow> False
     | Inr v \<Rightarrow> py_items v = Inl NotImplementedError)"

text \<open>
  A value whose iteration raises \<^verbatim>\<open>NotImplementedError\<close>, a module whose
  \<^verbatim>\<open>forward\<close> returns it when asked for the jacobian, and a module without
  \<^verbatim>\<open>jacobian\<close> whose \<^verbatim>\<open>__getattr__\<close> raises \<^verbatim>\<open>NotImplementedError\<close> for every
  name it does not define.
\<close>

definition py_lazy :: pyval where
  "py_lazy = PyVal (Inr 0) False (Inl NotImplementedError)"

definition lazy_pair_module :: module where
  "lazy_pair_module = full_module\<lparr>respond :=
     (\<lambda>history c. case c of
        Forward model with_jacobian \<Rightarrow> (if with_jacobian then Inr py_lazy else Inr py_vector)
      | _ \<Rightarrow> full_respond history c)\<rparr>"

definition stub_getattr_module :: module where
  "stub_getattr_module = no_jacobian_module\<lparr>lookup_error := (\<lambda>name. NotImplementedError)\<rparr>"





text \<open>
  Two metadata documents that declare no example: one whose citation has no
  \<^verbatim>\<open>doi\<close>, one whose optional sections are complete; and \<^verbatim>\<open>demo\<close> with a given
  metadata document.
\<close>

definition zero_examples_keys :: "(yaml \<times> yaml) list" where
  "zero_examples_keys =
     [(YStr ''name'', YStr ''demo''),
      (YStr ''short_description'', YStr ''a demonstration''),
      (YStr ''authors'', YSeq [YStr ''A. Author'']),
      (YStr ''examples'', YSeq [])]"

definition cited_keys :: "(yaml \<times> yaml) list" where
  "cited_keys = zero_examples_keys @
     [(YStr ''citation'', YMap [(YStr ''title'', YStr ''A paper'')])]"

definition complete_keys :: "(yaml \<times> yaml) list" where
  "complete_keys = zero_examples_keys @
     [(YStr ''citation'', YMap [(YStr ''doi'', YStr ''10.1000/demo'')]),
      (YStr ''contacts'', YSeq [YMap [(YStr ''name'', YStr ''A. Author''),
                                      (YStr ''email'', YStr ''a@example.org'')]])]"

definition metadata_env :: "yaml \<Rightarrow> env" where
  "metadata_env doc =
     \<lparr>files = (demo_files [] 1070)(''contrib/demo/metadata.yml'' \<mapsto> RegFile 300 (Inr doc)),
      import_module = demo_import demo_module\<rparr>"

lemmas demo_defs =
  demo_env_def demo_files_def contrib_entries_def demo_import_def demo_module_def
  demo_respond_def demo_metadata_def example_record_def demo_start_def
  py_vector_def py_scalar_def py_figure_def pair_env_def mixed_root_files_def
  demo_loaded_def scalar_data_module_def py_matrix_def py_pair_def full_respond_def
  full_module_def axes_plot_module_def raising_jacobian_module_def no_jacobian_module_def demo_probed_def demo_checked_def
  names_string_def string_all_module_def py_lazy_def lazy_pair_module_def
  stub_getattr_module_def zero_examples_keys_def cited_keys_def complete_keys_def
  metadata_env_def

lemmas check_defs =
  test_contrib_def and_then_def pure_step_def check_layout_def get_folder_content_def
  listdir_def bind_r_def py_assert_def required_files_def load_module_def list_insert_def
  CONTRIB_FOLDER_def MODULE_NAME_def check_exports_def std_funcs_def probe_required_def
  invoke_def assert_array_like_def array_like_def probe_optional_def
  probe_forward_jacobian_def probe_jacobian_def probe_plot_model_def probe_plot_data_def
  try_else_def unpack2_def check_metadata_def safe_load_def check_required_keys_def
  check_optional_sections_def assert_in_def cross_check_def check_licence_def st_size_def

section \<open>Basic facts about the combinators\<close>

lemma bind_r_Inl [simp]: "bind_r (Inl e) f = Inl e"
  by (simp add: bind_r_def)

lemma bind_r_Inr [simp]: "bind_r (Inr v) f = f v"
  by (simp add: bind_r_def)

lemma bind_r_eq_Inr: "bind_r r f = Inr v \<longleftrightarrow> (\<exists>a. r = Inr a \<and> f a = Inr v)"
  by (cases r) simp_all

lemma py_assert_True [simp]: "py_assert True = Inr ()"
  by (simp add: py_assert_def)

lemma py_assert_False [simp]: "py_assert False = Inl AssertionError"
  by (simp add: py_assert_def)

lemma py_assert_eq_Inr [simp]: "py_assert b = Inr u \<longleftrightarrow> b"
  by (simp add: py_assert_def)

lemma py_assert_eq_Inl [simp]: "py_assert b = Inl e \<longleftrightarrow> \<not> b \<and> e = AssertionError"
  by (auto simp: py_assert_def)

lemma for_each_eq_Inr: "for_each f xs = Inr u \<longleftrightarrow> (\<forall>x\<in>set xs. f x = Inr ())"
  by (induction xs) (auto split: sum.splits)

lemma for_each_fails: "x \<in> set xs \<Longrightarrow> f x = Inl e \<Longrightarrow> \<exists>e'. for_each f xs = Inl e'"
  by (induction xs) (auto split: sum.splits)

lemma and_then_eq_Inr:
  "and_then f g st = (Inr b, st') \<longleftrightarrow> (\<exists>a st1. f st = (Inr a, st1) \<and> g a st1 = (Inr b, st'))"
  by (cases "f st") (auto simp: and_then_def split: sum.splits)

lemma and_then_Inl: "f st = (Inl e, st1) \<Longrightarrow> and_then f g st = (Inl e, st1)"
  by (simp add: and_then_def)

lemma and_then_Inr: "f st = (Inr a, st1) \<Longrightarrow> and_then f g st = g a st1"
  by (simp add: and_then_def)

lemma and_then_assoc:
  "and_then (and_then f g) h = and_then f (\<lambda>a. and_then (g a) h)"
  by (rule ext) (auto simp: and_then_def split: prod.splits sum.splits)

lemma and_then_pure_Inr [simp]: "and_then (pure_step (Inr a)) g = g a"
  by (rule ext) (simp add: and_then_def pure_step_def)

lemma pure_step_eq [simp]: "pure_step r st = (x, st') \<longleftrightarrow> r = x \<and> st' = st"
  by (auto simp: pure_step_def)

lemma not_Inr_unit: "(r :: exn + unit) \<noteq> Inr () \<longleftrightarrow> (\<exists>e. r = Inl e)"
  by (cases r) simp_all

section \<open>The shape of a test\<close>

lemma test_contrib_split:
  "test_contrib ev contrib pre =
     and_then (checks_1_to_5 ev contrib pre) (\<lambda>contrib_mod.
     and_then (pure_step (check_metadata (files ev) (snd contrib))) (\<lambda>n_examples.
     and_then (cross_check contrib_mod n_examples) (\<lambda>_.
     pure_step (check_licence (files ev) (snd contrib)))))"
  by (cases contrib) (simp add: test_contrib_def checks_1_to_5_def and_then_assoc case_prod_unfold)

text \<open>A test passes exactly when each of the eight checks passes, in sequence.\<close>

lemma test_contrib_passes:
  "test_contrib ev (name, sub) pre st = (Inr u, st') \<longleftrightarrow>
     (\<exists>m st1 model data st2 st3 n.
        check_layout (files ev) name sub = Inr () \<and>
        load_module ev name pre st = (Inr m, st1) \<and>
        check_exports m = Inr () \<and>
        probe_required m st1 = (Inr (model, data), st2) \<and>
        probe_optional m model data st2 = (Inr (), st3) \<and>
        check_metadata (files ev) sub = Inr n \<and>
        cross_check m n st3 = (Inr (), st') \<and>
        check_licence (files ev) sub = Inr ())"
  by (simp add: test_contrib_def and_then_eq_Inr)

section \<open>Check 3: the export list\<close>

lemma assert_in_iff: "assert_in k v = Inr u \<longleftrightarrow> py_in k v = Inr True"
  by (cases "py_in k v") (simp_all add: assert_in_def)

lemma check_exports_iff:
  "check_exports m = Inr u \<longleftrightarrow>
     (\<exists>exported. dunder_all m = Some exported \<and>
        (\<forall>fun\<in>set std_funcs. py_in fun exported = Inr True))"
proof (cases "dunder_all m")
  case None
  have "''data'' \<in> set std_funcs" by (simp add: std_funcs_def)
  then show ?thesis using None
    unfolding check_exports_def for_each_eq_Inr by auto
next
  case (Some exported)
  then show ?thesis
    unfolding check_exports_def for_each_eq_Inr by (simp add: assert_in_iff)
qed

lemma check_exports_None:
  "dunder_all m = None \<Longrightarrow> check_exports m = Inl (lookup_error m ''__all__'')"
  by (simp add: check_exports_def std_funcs_def)

text \<open>
  Claim C4, as stated, fails: the check is \<^verbatim>\<open>fun in contrib_mod.__all__\<close>, which on a
  string is a substring test. A module whose \<^verbatim>\<open>__all__\<close> is one string passes the
  check, and the whole test, although no element of that export list is \<^verbatim>\<open>data\<close>:
  \<^verbatim>\<open>data\<close> occurs in the string only inside \<^verbatim>\<open>plot_data\<close>.
\<close>

theorem string_export_list_counterexample:
  "dunder_all string_all_module = Some (YStr names_string) \<and>
   py_iter (YStr names_string) = Inr (map (\<lambda>c. YStr [c]) names_string) \<and>
   YStr ''data'' \<notin> set (map (\<lambda>c. YStr [c]) names_string) \<and>
   check_exports string_all_module = Inr () \<and>
   fst (test_contrib (demo_env string_all_module [example_record] 1070)
          (''demo'', ''contrib/demo'') True demo_start) = Inr ()"
  by (simp add: check_defs demo_defs)

text \<open>
  Claim C4, amended. The export-list check passes if and only if the module binds
  \<^verbatim>\<open>__all__\<close> and \<^verbatim>\<open>name in __all__\<close> is true for each of the seven standard names.
  When \<^verbatim>\<open>__all__\<close> is a list (or tuple) this is the superset condition: the check
  passes exactly when the seven names are among its elements. When it is a string the
  check passes exactly when each name occurs in it as a substring. A module that binds no
  \<^verbatim>\<open>__all__\<close> fails with the error of the lookup. When the check does not pass, the
  test of a contribution that loaded this module fails there, in the state the load left.
\<close>

theorem export_list_membership:
  "(check_exports m = Inr () \<longleftrightarrow>
      (\<exists>exported. dunder_all m = Some exported \<and>
         (\<forall>fun\<in>set std_funcs. py_in fun exported = Inr True))) \<and>
   std_funcs = [''set_example_number'', ''suggested_model'', ''data'', ''forward'',
                ''jacobian'', ''plot_model'', ''plot_data''] \<and>
   (dunder_all m = Some (YSeq names) \<longrightarrow>
      (check_exports m = Inr () \<longleftrightarrow>
         {YStr ''set_example_number'', YStr ''suggested_model'', YStr ''data'', YStr ''forward'',
          YStr ''jacobian'', YStr ''plot_model'', YStr ''plot_data''} \<subseteq> set names)) \<and>
   (dunder_all m = Some (YStr s) \<longrightarrow>
      (check_exports m = Inr () \<longleftrightarrow> (\<forall>fun\<in>set std_funcs. str_contains fun s))) \<and>
   (dunder_all m = None \<longrightarrow> check_exports m = Inl (lookup_error m ''__all__'')) \<and>
   (check_exports m \<noteq> Inr () \<longrightarrow> load_module ev name pre st = (Inr m, st1) \<longrightarrow>
      check_layout (files ev) name sub = Inr () \<longrightarrow>
      (\<exists>e. test_contrib ev (name, sub) pre st = (Inl e, st1)))"
proof (intro conjI impI)
  show "check_exports m = Inr () \<longleftrightarrow>
      (\<exists>exported. dunder_all m = Some exported \<and>
         (\<forall>fun\<in>set std_funcs. py_in fun exported = Inr True))"
    by (rule check_exports_iff)
next
  show "std_funcs = [''set_example_number'', ''suggested_model'', ''data'', ''forward'',
                ''jacobian'', ''plot_model'', ''plot_data'']"
    by (rule std_funcs_def)
next
  assume "dunder_all m = Some (YSeq names)"
  then show "check_exports m = Inr () \<longleftrightarrow>
         {YStr ''set_example_number'', YStr ''suggested_model'', YStr ''data'', YStr ''forward'',
          YStr ''jacobian'', YStr ''plot_model'', YStr ''plot_data''} \<subseteq> set names"
    by (simp add: check_exports_iff std_funcs_def)
next
  assume "dunder_all m = Some (YStr s)"
  then show "check_exports m = Inr () \<longleftrightarrow> (\<forall>fun\<in>set std_funcs. str_contains fun s)"
    by (simp add: check_exports_iff)
next
  assume "dunder_all m = None"
  then show "check_exports m = Inl (lookup_error m ''__all__'')"
    by (rule check_exports_None)
next
  assume "check_exports m \<noteq> Inr ()" "load_module ev name pre st = (Inr m, st1)"
    "check_layout (files ev) name sub = Inr ()"
  then show "\<exists>e. test_contrib ev (name, sub) pre st = (Inl e, st1)"
    by (auto simp: test_contrib_def and_then_def pure_step_def not_Inr_unit)
qed

theorem export_list_membership_witness:
  "dunder_all demo_module = Some (YSeq (map YStr std_funcs)) \<and>
   check_exports demo_module = Inr () \<and>
   dunder_all class_based_module = Some (YSeq [YStr ''Magnetotelluric1D'']) \<and>
   check_exports class_based_module \<noteq> Inr () \<and>
   load_module (demo_env class_based_module [] 10) ''demo'' True demo_start
     = (Inr class_based_module, demo_loaded) \<and>
   check_layout (files (demo_env class_based_module [] 10)) ''demo'' ''contrib/demo'' = Inr () \<and>
   (\<exists>e. test_contrib (demo_env class_based_module [] 10) (''demo'', ''contrib/demo'') True demo_start
      = (Inl e, demo_loaded)) \<and>
   dunder_all string_all_module = Some (YStr names_string) \<and>
   check_exports string_all_module = Inr () \<and>
   check_exports (demo_module\<lparr>dunder_all := None\<rparr>) = Inl AttributeError"
proof -
  have da: "dunder_all demo_module = Some (YSeq (map YStr std_funcs))"
    by (simp add: demo_module_def)
  have a: "check_exports demo_module = Inr ()"
    using export_list_membership [where m = demo_module and names = "map YStr std_funcs"] da
    by (simp add: std_funcs_def)
  have db: "dunder_all class_based_module = Some (YSeq [YStr ''Magnetotelluric1D''])"
    by (simp add: class_based_module_def demo_module_def)
  have b: "check_exports class_based_module \<noteq> Inr ()"
    using export_list_membership [where m = class_based_module
        and names = "[YStr ''Magnetotelluric1D'']"] db
    by (simp add: std_funcs_def)
  have c: "load_module (demo_env class_based_module [] 10) ''demo'' True demo_start
     = (Inr class_based_module, demo_loaded)"
    by (simp add: load_module_def demo_env_def demo_import_def demo_start_def list_insert_def
        CONTRIB_FOLDER_def demo_loaded_def)
  have d: "check_layout (files (demo_env class_based_module [] 10)) ''demo'' ''contrib/demo'' = Inr ()"
    by (simp add: check_layout_def get_folder_content_def listdir_def required_files_def
        demo_env_def demo_files_def contrib_entries_def)
  from export_list_membership [where m = class_based_module
      and ev = "demo_env class_based_module [] 10" and name = "''demo''" and pre = True
      and st = demo_start and ?st1.0 = demo_loaded and sub = "''contrib/demo''"] b c d
  have e: "\<exists>e. test_contrib (demo_env class_based_module [] 10) (''demo'', ''contrib/demo'') True
                 demo_start = (Inl e, demo_loaded)"
    by blast
  have ds: "dunder_all string_all_module = Some (YStr names_string)"
    by (simp add: string_all_module_def demo_module_def)
  have "\<forall>fun\<in>set std_funcs. str_contains fun names_string"
    by (simp add: std_funcs_def names_string_def)
  then have f: "check_exports string_all_module = Inr ()"
    using export_list_membership [where m = string_all_module and s = names_string] ds
    by blast
  have "dunder_all (demo_module\<lparr>dunder_all := None\<rparr>) = None" by simp
  then have g: "check_exports (demo_module\<lparr>dunder_all := None\<rparr>) = Inl AttributeError"
    using export_list_membership [where m = "demo_module\<lparr>dunder_all := None\<rparr>"]
    by (simp add: demo_module_def)
  show ?thesis using da a db b c d e ds f g by blast
qed

section \<open>Check 6: the metadata document\<close>

lemma py_in_YMap: "py_in k (YMap kvs) = Inr (YStr k \<in> fst ` set kvs)"
  by simp

lemma assert_in_YMap: "assert_in k (YMap kvs) = py_assert (YStr k \<in> fst ` set kvs)"
  by (simp add: assert_in_def)



lemma example_body_fails:
  assumes "k \<in> {''description'', ''model_dimension'', ''data_dimension''}"
      and "YStr k \<notin> fst ` set kvs"
  shows "bind_r (assert_in ''description'' (YMap kvs)) (\<lambda>_.
         bind_r (assert_in ''model_dimension'' (YMap kvs)) (\<lambda>_.
         assert_in ''data_dimension'' (YMap kvs))) = Inl AssertionError"
  using assms by (auto simp: assert_in_YMap py_assert_def)

lemma check_required_keys_fails:
  assumes "py_getitem doc ''examples'' = Inr (YSeq examples)"
      and "YMap kvs \<in> set examples"
      and "k \<in> {''description'', ''model_dimension'', ''data_dimension''}"
      and "YStr k \<notin> fst ` set kvs"
  shows "\<exists>e. check_required_keys doc = Inl e"
proof -
  let ?body = "\<lambda>example.
         bind_r (assert_in ''description'' example) (\<lambda>_.
         bind_r (assert_in ''model_dimension'' example) (\<lambda>_.
         assert_in ''data_dimension'' example))"
  from for_each_fails [OF assms(2), of ?body, OF example_body_fails [OF assms(3,4)]]
  obtain e where e: "for_each ?body examples = Inl e" by blast
  show ?thesis
  proof (cases "for_each (\<lambda>k. assert_in k doc)
               [''name'', ''short_description'', ''authors'', ''examples'']")
    case (Inl a)
    then show ?thesis by (simp add: check_required_keys_def)
  next
    case (Inr b)
    then show ?thesis using assms(1) e by (simp add: check_required_keys_def)
  qed
qed









text \<open>
  Claim C5. When the metadata file parses and one record of its \<^verbatim>\<open>examples\<close>
  sequence lacks \<^verbatim>\<open>description\<close>, \<^verbatim>\<open>model_dimension\<close> or \<^verbatim>\<open>data_dimension\<close>,
  check 6 fails, the test fails, and the test ends in the state checks 1 to 5 left: no
  call of the cross-check loop is made. When checks 1 to 5 pass, the failure of the test
  is the failure of check 6.
\<close>

theorem missing_example_key_fails_before_cross_check:
  assumes "safe_load (files ev) (sub @ ''/metadata.yml'') = Inr doc"
      and "py_getitem doc ''examples'' = Inr (YSeq examples)"
      and "YMap kvs \<in> set examples"
      and "k \<in> {''description'', ''model_dimension'', ''data_dimension''}"
      and "YStr k \<notin> fst ` set kvs"
  shows "(\<exists>e. check_metadata (files ev) sub = Inl e) \<and>
         (\<exists>e. fst (test_contrib ev (name, sub) pre st) = Inl e) \<and>
         snd (test_contrib ev (name, sub) pre st) = snd (checks_1_to_5 ev (name, sub) pre st) \<and>
         (\<forall>m st5. checks_1_to_5 ev (name, sub) pre st = (Inr m, st5) \<longrightarrow>
            (\<exists>e. check_metadata (files ev) sub = Inl e \<and>
                 test_contrib ev (name, sub) pre st = (Inl e, st5)))"
proof -
  from check_required_keys_fails [OF assms(2-5)]
  obtain e where "check_required_keys doc = Inl e" by blast
  then have meta: "check_metadata (files ev) sub = Inl e"
    using assms(1) by (simp add: check_metadata_def)
  obtain r st5 where c5: "checks_1_to_5 ev (name, sub) pre st = (r, st5)"
    by (cases "checks_1_to_5 ev (name, sub) pre st")
  show ?thesis
  proof (cases r)
    case (Inl a)
    then show ?thesis using meta c5
      by (simp add: test_contrib_split and_then_def)
  next
    case (Inr m)
    then show ?thesis using meta c5
      by (simp add: test_contrib_split and_then_def pure_step_def)
  qed
qed

theorem missing_example_key_fails_before_cross_check_witness:
  "safe_load (files (demo_env demo_module [example_record, incomplete_record] 1070))
       (''contrib/demo'' @ ''/metadata.yml'')
     = Inr (demo_metadata [example_record, incomplete_record]) \<and>
   py_getitem (demo_metadata [example_record, incomplete_record]) ''examples''
     = Inr (YSeq [example_record, incomplete_record]) \<and>
   incomplete_record \<in> set [example_record, incomplete_record] \<and>
   (\<exists>e. check_metadata (files (demo_env demo_module [example_record, incomplete_record] 1070))
          ''contrib/demo'' = Inl e) \<and>
   test_contrib (demo_env demo_module [example_record, incomplete_record] 1070)
       (''demo'', ''contrib/demo'') True demo_start =
     (Inl AssertionError, \<lparr>sys_path = [[], ''contrib''],
        calls = [SetExampleNumber 0, SuggestedModel, Data, Forward py_vector False,
                 Forward py_vector True, Jacobian py_vector, PlotModel py_vector,
                 PlotData py_vector]\<rparr>)"
proof -
  let ?ev = "demo_env demo_module [example_record, incomplete_record] 1070"
  let ?kvs = "[(YStr ''description'', YStr ''half space''), (YStr ''data_dimension'', YInt 3)]"
  have a: "safe_load (files ?ev) (''contrib/demo'' @ ''/metadata.yml'')
             = Inr (demo_metadata [example_record, incomplete_record])"
    by (simp add: safe_load_def demo_env_def demo_files_def contrib_entries_def)
  have b: "py_getitem (demo_metadata [example_record, incomplete_record]) ''examples''
             = Inr (YSeq [example_record, incomplete_record])"
    by (simp add: demo_metadata_def)
  have c: "YMap ?kvs \<in> set [example_record, incomplete_record]"
    by (simp add: incomplete_record_def)
  have d: "''model_dimension'' \<in> {''description'', ''model_dimension'', ''data_dimension''}"
    by simp
  have e: "YStr ''model_dimension'' \<notin> fst ` set ?kvs"
    by simp
  have run: "test_contrib ?ev (''demo'', ''contrib/demo'') True demo_start =
     (Inl AssertionError, \<lparr>sys_path = [[], ''contrib''],
        calls = [SetExampleNumber 0, SuggestedModel, Data, Forward py_vector False,
                 Forward py_vector True, Jacobian py_vector, PlotModel py_vector,
                 PlotData py_vector]\<rparr>)"
    by (simp add: check_defs demo_defs incomplete_record_def)
  from missing_example_key_fails_before_cross_check [OF a b c d e]
  show ?thesis using a b c run by (simp add: incomplete_record_def)
qed

section \<open>Check 8: the licence file\<close>

lemma test_contrib_passes_fst:
  "fst (test_contrib ev (name, sub) pre st) = Inr () \<Longrightarrow> check_licence (files ev) sub = Inr ()"
proof -
  assume a: "fst (test_contrib ev (name, sub) pre st) = Inr ()"
  obtain st' where "test_contrib ev (name, sub) pre st = (Inr (), st')"
    using a by (cases "test_contrib ev (name, sub) pre st") simp
  then show ?thesis by (auto simp: test_contrib_passes)
qed

lemma check_licence_iff:
  "check_licence fs sub = Inr u \<longleftrightarrow> (\<exists>size. st_size fs (sub @ ''/LICENCE'') = Inr size \<and> size \<noteq> 0)"
  by (simp add: check_licence_def bind_r_eq_Inr)

lemma demo_checks_1_to_5:
  "checks_1_to_5 (demo_env demo_module exs sz) (''demo'', ''contrib/demo'') True demo_start =
     (Inr demo_module, \<lparr>sys_path = [[], ''contrib''],
        calls = [SetExampleNumber 0, SuggestedModel, Data, Forward py_vector False,
                 Forward py_vector True, Jacobian py_vector, PlotModel py_vector,
                 PlotData py_vector]\<rparr>)"
  by (simp add: checks_1_to_5_def check_defs demo_defs)

text \<open>
  Claim C9. When \<^verbatim>\<open>os.stat\<close> reports size 0 for the contribution's \<^verbatim>\<open>LICENCE\<close>, the
  test fails whatever the other checks do; a test that passes has a \<^verbatim>\<open>LICENCE\<close> of
  non-zero size; and when checks 1 to 7 all pass, the failure is the assertion of check 8.
\<close>

theorem empty_licence_fails:
  "(st_size (files ev) (sub @ ''/LICENCE'') = Inr 0 \<longrightarrow>
      (\<exists>e. fst (test_contrib ev (name, sub) pre st) = Inl e)) \<and>
   (fst (test_contrib ev (name, sub) pre st) = Inr () \<longrightarrow>
      (\<exists>size. st_size (files ev) (sub @ ''/LICENCE'') = Inr size \<and> size \<noteq> 0)) \<and>
   (st_size (files ev) (sub @ ''/LICENCE'') = Inr 0 \<longrightarrow>
      checks_1_to_5 ev (name, sub) pre st = (Inr m, st5) \<longrightarrow>
      check_metadata (files ev) sub = Inr n \<longrightarrow>
      cross_check m n st5 = (Inr (), st7) \<longrightarrow>
      test_contrib ev (name, sub) pre st = (Inl AssertionError, st7))"
proof (intro conjI impI)
  assume z: "st_size (files ev) (sub @ ''/LICENCE'') = Inr 0"
  have "fst (test_contrib ev (name, sub) pre st) \<noteq> Inr ()"
    using test_contrib_passes_fst [of ev name sub pre st] z by (auto simp: check_licence_iff)
  then show "\<exists>e. fst (test_contrib ev (name, sub) pre st) = Inl e"
    by (simp add: not_Inr_unit)
next
  assume "fst (test_contrib ev (name, sub) pre st) = Inr ()"
  then show "\<exists>size. st_size (files ev) (sub @ ''/LICENCE'') = Inr size \<and> size \<noteq> 0"
    using test_contrib_passes_fst [of ev name sub pre st] by (simp add: check_licence_iff)
next
  assume "st_size (files ev) (sub @ ''/LICENCE'') = Inr 0"
    and "checks_1_to_5 ev (name, sub) pre st = (Inr m, st5)"
    and "check_metadata (files ev) sub = Inr n"
    and "cross_check m n st5 = (Inr (), st7)"
  then show "test_contrib ev (name, sub) pre st = (Inl AssertionError, st7)"
    by (simp add: test_contrib_split and_then_def pure_step_def check_licence_def)
qed

theorem empty_licence_fails_witness:
  "st_size (files (demo_env demo_module [example_record] 0)) (''contrib/demo'' @ ''/LICENCE'') = Inr 0 \<and>
   check_metadata (files (demo_env demo_module [example_record] 0)) ''contrib/demo'' = Inr 1 \<and>
   test_contrib (demo_env demo_module [example_record] 0) (''demo'', ''contrib/demo'') True demo_start =
     (Inl AssertionError, \<lparr>sys_path = [[], ''contrib''],
        calls = [SetExampleNumber 0, SuggestedModel, Data, Forward py_vector False,
                 Forward py_vector True, Jacobian py_vector, PlotModel py_vector,
                 PlotData py_vector, SetExampleNumber 0]\<rparr>) \<and>
   fst (test_contrib (demo_env demo_module [example_record] 1070) (''demo'', ''contrib/demo'') True
          demo_start) = Inr () \<and>
   st_size (files (demo_env demo_module [example_record] 1070)) (''contrib/demo'' @ ''/LICENCE'')
     = Inr 1070"
proof -
  let ?ev = "demo_env demo_module [example_record] 0"
  let ?st5 = "\<lparr>sys_path = [[], ''contrib''],
        calls = [SetExampleNumber 0, SuggestedModel, Data, Forward py_vector False,
                 Forward py_vector True, Jacobian py_vector, PlotModel py_vector,
                 PlotData py_vector]\<rparr>"
  have a: "st_size (files ?ev) (''contrib/demo'' @ ''/LICENCE'') = Inr 0"
    by (simp add: st_size_def demo_env_def demo_files_def contrib_entries_def)
  have b: "check_metadata (files ?ev) ''contrib/demo'' = Inr 1"
    by (simp add: check_metadata_def safe_load_def check_required_keys_def
        check_optional_sections_def assert_in_def demo_defs)
  have c: "cross_check demo_module 1 ?st5 = (Inr (), ?st5\<lparr>calls := calls ?st5 @ [SetExampleNumber 0]\<rparr>)"
    by (simp add: cross_check_def invoke_def demo_module_def std_funcs_def demo_respond_def)
  have d: "fst (test_contrib (demo_env demo_module [example_record] 1070)
                  (''demo'', ''contrib/demo'') True demo_start) = Inr ()"
    by (simp add: check_defs demo_defs)
  have e: "st_size (files (demo_env demo_module [example_record] 1070))
             (''contrib/demo'' @ ''/LICENCE'') = Inr 1070"
    using empty_licence_fails [of "demo_env demo_module [example_record] 1070" "''contrib/demo''"
        "''demo''" True demo_start] d
    by (simp add: st_size_def demo_env_def demo_files_def contrib_entries_def)
  from empty_licence_fails [of ?ev "''contrib/demo''" "''demo''" True demo_start demo_module ?st5 1
      "?st5\<lparr>calls := calls ?st5 @ [SetExampleNumber 0]\<rparr>"] a b c demo_checks_1_to_5 [of "[example_record]" 0]
  show ?thesis using d e by simp
qed

section \<open>Discovery of contributions\<close>

lemma zip_map_same: "zip xs (map f xs) = map (\<lambda>x. (x, f x)) xs"
  by (induction xs) simp_all

text \<open>
  Claim C6, as stated, fails: \<^verbatim>\<open>all_contribs\<close> applies no directory test, and a plain
  file directly under the contributions root is listed as a contribution.
\<close>

theorem plain_file_listed_counterexample:
  "all_contribs mixed_root_files =
     Inr [(''demo'', ''contrib/demo''), (''README.md'', ''contrib/README.md'')] \<and>
   isdir mixed_root_files ''contrib/README.md'' = False"
  by (simp add: all_contribs_def get_folder_content_def listdir_def isdir_def CONTRIB_FOLDER_def
      mixed_root_files_def contrib_entries_def)

text \<open>
  Claim C6, amended. \<^verbatim>\<open>all_contribs\<close> lists every entry of the contributions root
  that \<^verbatim>\<open>os.listdir\<close> returns, files and subfolders alike, in listing order, each as
  the pair of its name and \<^verbatim>\<open>contrib/name\<close>; an error of the listing propagates. An
  entry that is a plain file is a contribution too, and its test fails at once with
  \<^verbatim>\<open>NotADirectoryError\<close>, nothing else having been done.
\<close>

theorem all_contribs_lists_every_entry:
  "(listdir fs CONTRIB_FOLDER = Inr names \<longrightarrow>
      all_contribs fs = Inr (map (\<lambda>name. (name, ''contrib/'' @ name)) names)) \<and>
   (listdir fs CONTRIB_FOLDER = Inl e \<longrightarrow> all_contribs fs = Inl e) \<and>
   (files ev (''contrib/'' @ name) = Some (RegFile sz doc) \<longrightarrow>
      test_contrib ev (name, ''contrib/'' @ name) pre st = (Inl NotADirectoryError, st))"
  by (simp add: all_contribs_def get_folder_content_def zip_map_same CONTRIB_FOLDER_def
      test_contrib_def and_then_def pure_step_def check_layout_def listdir_def)

theorem all_contribs_lists_every_entry_witness:
  "listdir mixed_root_files CONTRIB_FOLDER = Inr [''demo'', ''README.md''] \<and>
   all_contribs mixed_root_files =
     Inr [(''demo'', ''contrib/demo''), (''README.md'', ''contrib/README.md'')] \<and>
   isdir mixed_root_files ''contrib/demo'' \<and>
   mixed_root_files (''contrib/'' @ ''README.md'') = Some (RegFile 120 (Inr (YStr ''# Contributions''))) \<and>
   test_contrib \<lparr>files = mixed_root_files, import_module = demo_import demo_module\<rparr>
       (''README.md'', ''contrib/'' @ ''README.md'') True demo_start
     = (Inl NotADirectoryError, demo_start)"
proof -
  let ?ev = "\<lparr>files = mixed_root_files, import_module = demo_import demo_module\<rparr>"
  have a: "listdir mixed_root_files CONTRIB_FOLDER = Inr [''demo'', ''README.md'']"
    by (simp add: listdir_def CONTRIB_FOLDER_def mixed_root_files_def)
  have b: "files ?ev (''contrib/'' @ ''README.md'') = Some (RegFile 120 (Inr (YStr ''# Contributions'')))"
    by (simp add: mixed_root_files_def)
  have c: "isdir mixed_root_files ''contrib/demo''"
    by (simp add: isdir_def mixed_root_files_def contrib_entries_def)
  from all_contribs_lists_every_entry [of mixed_root_files "[''demo'', ''README.md'']" _ ?ev
      "''README.md''" 120 "Inr (YStr ''# Contributions'')" True demo_start] a b c
  show ?thesis by simp
qed

section \<open>The build-phase argument\<close>

lemma run_tests_fixture_error:
  "pre_build argv = Inl e \<Longrightarrow> run_tests ev argv contribs path = (map (\<lambda>_. Inl e) contribs, path)"
  by (induction contribs) (simp_all add: run_test_def)

text \<open>
  Claim C7. When the command line has an argument and the last one is neither
  \<^verbatim>\<open>pre\<close> nor \<^verbatim>\<open>post\<close>, the fixture raises \<^verbatim>\<open>ValueError\<close>, and in a run every
  test ends with that error before its body starts: no contribution is checked and
  \<^verbatim>\<open>sys.path\<close> is untouched. With \<^verbatim>\<open>pre\<close> the mode is pre-packaging, with
  \<^verbatim>\<open>post\<close> post-packaging, with no argument pre-packaging, and the test body runs in
  that mode.
\<close>

theorem phase_argument_checked:
  "(1 < length argv \<and> last argv \<notin> {''pre'', ''post''} \<longrightarrow>
      pre_build argv = Inl ValueError \<and>
      run_test ev argv contrib st = (Inl ValueError, st) \<and>
      run_tests ev argv contribs path = (map (\<lambda>_. Inl ValueError) contribs, path)) \<and>
   (1 < length argv \<and> last argv = ''pre'' \<longrightarrow> pre_build argv = Inr True) \<and>
   (1 < length argv \<and> last argv = ''post'' \<longrightarrow> pre_build argv = Inr False) \<and>
   (length argv \<le> 1 \<longrightarrow> pre_build argv = Inr True) \<and>
   (pre_build argv = Inr pre \<longrightarrow> run_test ev argv contrib st = test_contrib ev contrib pre st)"
proof (intro conjI impI)
  assume a: "1 < length argv \<and> last argv \<notin> {''pre'', ''post''}"
  then show e: "pre_build argv = Inl ValueError"
    by (simp add: pre_build_def)
  show "run_test ev argv contrib st = (Inl ValueError, st)"
    using e by (simp add: run_test_def)
  show "run_tests ev argv contribs path = (map (\<lambda>_. Inl ValueError) contribs, path)"
    using e by (rule run_tests_fixture_error)
qed (simp_all add: pre_build_def run_test_def)

theorem phase_argument_checked_witness:
  "pre_build [''validate.py'', ''build''] = Inl ValueError \<and>
   run_tests pair_env [''validate.py'', ''build'']
       [(''demo'', ''contrib/demo''), (''other'', ''contrib/other'')] [[]]
     = ([Inl ValueError, Inl ValueError], [[]]) \<and>
   run_test pair_env [''validate.py'', ''build''] (''demo'', ''contrib/demo'') demo_start
     = (Inl ValueError, demo_start) \<and>
   pre_build [''validate.py'', ''pre''] = Inr True \<and>
   pre_build [''validate.py'', ''post''] = Inr False \<and>
   pre_build [''validate.py''] = Inr True \<and>
   run_test pair_env [''validate.py'', ''post''] (''demo'', ''contrib/demo'') demo_start
     = test_contrib pair_env (''demo'', ''contrib/demo'') False demo_start"
  using phase_argument_checked [where argv = "[''validate.py'', ''build'']" and ev = pair_env
          and contribs = "[(''demo'', ''contrib/demo''), (''other'', ''contrib/other'')]"
          and path = "[[]]" and contrib = "(''demo'', ''contrib/demo'')" and st = demo_start]
        phase_argument_checked [where argv = "[''validate.py'', ''pre'']"]
        phase_argument_checked [where argv = "[''validate.py'', ''post'']" and ev = pair_env
          and pre = False and contrib = "(''demo'', ''contrib/demo'')" and st = demo_start]
        phase_argument_checked [where argv = "[''validate.py'']"]
  by simp

section \<open>Check 4: the required functions\<close>

lemma is_array_like_iff: "is_array_like v \<longleftrightarrow> array_like v = Inr True"
  by (cases "np_ndim v") (auto simp: array_like_def is_array_like_def)

lemma assert_array_like_iff: "assert_array_like v = Inr u \<longleftrightarrow> is_array_like v"
  by (cases "np_ndim v") (simp_all add: assert_array_like_def array_like_def is_array_like_def)

lemma assert_array_like_cases:
  "assert_array_like v = (if is_array_like v then Inr ()
     else case np_ndim v of Inl e \<Rightarrow> Inl e | Inr n \<Rightarrow> Inl AssertionError)"
  by (cases "np_ndim v") (simp_all add: assert_array_like_def array_like_def is_array_like_def)

lemma invoke_Inr_D:
  "invoke m c st = (Inr v, st') \<Longrightarrow>
     call_name c \<in> set (attrs m) \<and> respond m (calls st) c = Inr v \<and>
     st' = st\<lparr>calls := calls st @ [c]\<rparr>"
  by (auto simp: invoke_def split: if_splits)

lemma probe_required_chain:
  assumes "invoke m (SetExampleNumber 0) st = (Inr none, st1)"
      and "invoke m SuggestedModel st1 = (Inr model, st2)"
      and "invoke m Data st2 = (Inr data, st3)"
      and "invoke m (Forward model False) st3 = (Inr synthetics, st4)"
  shows "probe_required m st =
     (bind_r (assert_array_like model) (\<lambda>_.
      bind_r (assert_array_like data) (\<lambda>_.
      bind_r (assert_array_like synthetics) (\<lambda>_. Inr (model, data)))), st4)"
  using assms by (simp add: probe_required_def and_then_def pure_step_def)

lemma probe_required_Inr_D:
  assumes "probe_required m st = (Inr (model, data), st')"
  shows "\<exists>none synthetics st1 st2 st3.
           invoke m (SetExampleNumber 0) st = (Inr none, st1) \<and>
           invoke m SuggestedModel st1 = (Inr model, st2) \<and>
           invoke m Data st2 = (Inr data, st3) \<and>
           invoke m (Forward model False) st3 = (Inr synthetics, st') \<and>
           is_array_like model \<and> is_array_like data \<and> is_array_like synthetics"
  using assms
  by (auto simp: probe_required_def and_then_eq_Inr bind_r_eq_Inr assert_array_like_iff)

text \<open>
  Claim C1. A value is array-like when \<^verbatim>\<open>np.ndim\<close> of it is non-zero, which is when
  \<^verbatim>\<open>_array_like\<close> returns true. The probe of the required functions passes only if
  \<^verbatim>\<open>suggested_model()\<close>, \<^verbatim>\<open>data()\<close> and \<^verbatim>\<open>forward(model)\<close> all returned array-like
  values; when the four calls of the probe return and one of the three values is not
  array-like, the probe fails; a failing probe fails the test of the contribution whose
  module was loaded; and a passing test has passed the probe.
\<close>

theorem required_results_array_like:
  "(is_array_like v \<longleftrightarrow> (\<exists>n. np_ndim v = Inr n \<and> n \<noteq> 0)) \<and>
   (is_array_like v \<longleftrightarrow> array_like v = Inr True) \<and>
   (probe_required m st = (Inr (model, data), st') \<longrightarrow>
      (\<exists>none synthetics st1 st2 st3.
         invoke m (SetExampleNumber 0) st = (Inr none, st1) \<and>
         invoke m SuggestedModel st1 = (Inr model, st2) \<and>
         invoke m Data st2 = (Inr data, st3) \<and>
         invoke m (Forward model False) st3 = (Inr synthetics, st') \<and>
         is_array_like model \<and> is_array_like data \<and> is_array_like synthetics)) \<and>
   (invoke m (SetExampleNumber 0) st = (Inr none, st1) \<longrightarrow>
    invoke m SuggestedModel st1 = (Inr model, st2) \<longrightarrow>
    invoke m Data st2 = (Inr data, st3) \<longrightarrow>
    invoke m (Forward model False) st3 = (Inr synthetics, st4) \<longrightarrow>
      (is_array_like model \<and> is_array_like data \<and> is_array_like synthetics \<longrightarrow>
         probe_required m st = (Inr (model, data), st4)) \<and>
      (\<not> (is_array_like model \<and> is_array_like data \<and> is_array_like synthetics) \<longrightarrow>
         (\<exists>e. probe_required m st = (Inl e, st4)))) \<and>
   (check_layout (files ev) name sub = Inr () \<longrightarrow>
    load_module ev name pre st0 = (Inr m, st) \<longrightarrow>
    check_exports m = Inr () \<longrightarrow>
    probe_required m st = (Inl e, st4) \<longrightarrow>
      test_contrib ev (name, sub) pre st0 = (Inl e, st4)) \<and>
   (test_contrib ev (name, sub) pre st0 = (Inr (), st9) \<longrightarrow>
      (\<exists>m' s model' data' s'. load_module ev name pre st0 = (Inr m', s) \<and>
          probe_required m' s = (Inr (model', data'), s') \<and>
          is_array_like model' \<and> is_array_like data'))"
proof (intro conjI impI)
  show "is_array_like v \<longleftrightarrow> (\<exists>n. np_ndim v = Inr n \<and> n \<noteq> 0)"
    by (cases "np_ndim v") (simp_all add: is_array_like_def)
next
  show "is_array_like v \<longleftrightarrow> array_like v = Inr True"
    by (rule is_array_like_iff)
next
  assume "probe_required m st = (Inr (model, data), st')"
  then show "\<exists>none synthetics st1 st2 st3.
         invoke m (SetExampleNumber 0) st = (Inr none, st1) \<and>
         invoke m SuggestedModel st1 = (Inr model, st2) \<and>
         invoke m Data st2 = (Inr data, st3) \<and>
         invoke m (Forward model False) st3 = (Inr synthetics, st') \<and>
         is_array_like model \<and> is_array_like data \<and> is_array_like synthetics"
    by (rule probe_required_Inr_D)
next
  assume c: "invoke m (SetExampleNumber 0) st = (Inr none, st1)"
    "invoke m SuggestedModel st1 = (Inr model, st2)"
    "invoke m Data st2 = (Inr data, st3)"
    "invoke m (Forward model False) st3 = (Inr synthetics, st4)"
  {
    assume "is_array_like model \<and> is_array_like data \<and> is_array_like synthetics"
    then show "probe_required m st = (Inr (model, data), st4)"
      by (simp add: probe_required_chain [OF c] assert_array_like_cases)
  next
    assume "\<not> (is_array_like model \<and> is_array_like data \<and> is_array_like synthetics)"
    then show "\<exists>e. probe_required m st = (Inl e, st4)"
      by (auto simp: probe_required_chain [OF c] assert_array_like_cases split: sum.splits)
  }
next
  assume "check_layout (files ev) name sub = Inr ()"
    "load_module ev name pre st0 = (Inr m, st)"
    "check_exports m = Inr ()"
    "probe_required m st = (Inl e, st4)"
  then show "test_contrib ev (name, sub) pre st0 = (Inl e, st4)"
    by (simp add: test_contrib_def and_then_def pure_step_def)
next
  assume "test_contrib ev (name, sub) pre st0 = (Inr (), st9)"
  then obtain m' s model' data' s' where
    "load_module ev name pre st0 = (Inr m', s)" "probe_required m' s = (Inr (model', data'), s')"
    by (auto simp: test_contrib_passes)
  then show "\<exists>m' s model' data' s'. load_module ev name pre st0 = (Inr m', s) \<and>
          probe_required m' s = (Inr (model', data'), s') \<and>
          is_array_like model' \<and> is_array_like data'"
    using probe_required_Inr_D by blast
qed

lemma demo_layout:
  "check_layout (files (demo_env m exs sz)) ''demo'' ''contrib/demo'' = Inr ()"
  by (simp add: check_layout_def get_folder_content_def listdir_def required_files_def
      demo_env_def demo_files_def contrib_entries_def)

lemma demo_load:
  "load_module (demo_env m exs sz) ''demo'' True demo_start = (Inr m, demo_loaded)"
  by (simp add: load_module_def list_insert_def CONTRIB_FOLDER_def demo_env_def demo_import_def
      demo_start_def demo_loaded_def)

theorem required_results_array_like_witness:
  "invoke scalar_data_module (SetExampleNumber 0) demo_loaded
     = (Inr py_scalar, demo_loaded\<lparr>calls := [SetExampleNumber 0]\<rparr>) \<and>
   invoke scalar_data_module SuggestedModel (demo_loaded\<lparr>calls := [SetExampleNumber 0]\<rparr>)
     = (Inr py_vector, demo_loaded\<lparr>calls := [SetExampleNumber 0, SuggestedModel]\<rparr>) \<and>
   invoke scalar_data_module Data (demo_loaded\<lparr>calls := [SetExampleNumber 0, SuggestedModel]\<rparr>)
     = (Inr py_scalar, demo_loaded\<lparr>calls := [SetExampleNumber 0, SuggestedModel, Data]\<rparr>) \<and>
   invoke scalar_data_module (Forward py_vector False)
       (demo_loaded\<lparr>calls := [SetExampleNumber 0, SuggestedModel, Data]\<rparr>)
     = (Inr py_vector, demo_probed) \<and>
   is_array_like py_vector \<and> \<not> is_array_like py_scalar \<and>
   (\<exists>e. probe_required scalar_data_module demo_loaded = (Inl e, demo_probed)) \<and>
   (\<exists>e. test_contrib (demo_env scalar_data_module [example_record] 1070)
          (''demo'', ''contrib/demo'') True demo_start = (Inl e, demo_probed)) \<and>
   probe_required demo_module demo_loaded = (Inr (py_vector, py_vector), demo_probed)"
proof -
  let ?m = scalar_data_module
  let ?s1 = "demo_loaded\<lparr>calls := [SetExampleNumber 0]\<rparr>"
  let ?s2 = "demo_loaded\<lparr>calls := [SetExampleNumber 0, SuggestedModel]\<rparr>"
  let ?s3 = "demo_loaded\<lparr>calls := [SetExampleNumber 0, SuggestedModel, Data]\<rparr>"
  let ?ev = "demo_env scalar_data_module [example_record] 1070"
  have i1: "invoke ?m (SetExampleNumber 0) demo_loaded = (Inr py_scalar, ?s1)"
    and i2: "invoke ?m SuggestedModel ?s1 = (Inr py_vector, ?s2)"
    and i3: "invoke ?m Data ?s2 = (Inr py_scalar, ?s3)"
    and i4: "invoke ?m (Forward py_vector False) ?s3 = (Inr py_vector, demo_probed)"
    by (simp_all add: invoke_def scalar_data_module_def demo_module_def demo_respond_def
        std_funcs_def demo_loaded_def demo_probed_def)
  have v: "is_array_like py_vector" and s: "\<not> is_array_like py_scalar"
    by (simp_all add: is_array_like_def py_vector_def py_scalar_def)
  have d1: "invoke demo_module (SetExampleNumber 0) demo_loaded = (Inr py_scalar, ?s1)"
    and d2: "invoke demo_module SuggestedModel ?s1 = (Inr py_vector, ?s2)"
    and d3: "invoke demo_module Data ?s2 = (Inr py_vector, ?s3)"
    and d4: "invoke demo_module (Forward py_vector False) ?s3 = (Inr py_vector, demo_probed)"
    by (simp_all add: invoke_def demo_module_def demo_respond_def
        std_funcs_def demo_loaded_def demo_probed_def)
  note good_thm = required_results_array_like [where m = demo_module and st = demo_loaded
      and model = py_vector and data = py_vector and none = py_scalar and ?st1.0 = ?s1
      and ?st2.0 = ?s2 and ?st3.0 = ?s3 and synthetics = py_vector and ?st4.0 = demo_probed]
  have good: "probe_required demo_module demo_loaded = (Inr (py_vector, py_vector), demo_probed)"
    using good_thm d1 d2 d3 d4 v by blast
  note bad_thm = required_results_array_like [where m = ?m and st = demo_loaded
      and model = py_vector and data = py_scalar and none = py_scalar and ?st1.0 = ?s1
      and ?st2.0 = ?s2 and ?st3.0 = ?s3 and synthetics = py_vector and ?st4.0 = demo_probed]
  have "\<exists>e. probe_required ?m demo_loaded = (Inl e, demo_probed)"
    using bad_thm i1 i2 i3 i4 s by blast
  then obtain e where bad: "probe_required ?m demo_loaded = (Inl e, demo_probed)"
    by blast
  have exports: "check_exports ?m = Inr ()"
    by (simp add: check_exports_def std_funcs_def scalar_data_module_def demo_module_def
        assert_in_def)
  note test_thm = required_results_array_like [where m = ?m and st = demo_loaded
      and ?st4.0 = demo_probed and ev = ?ev and name = "''demo''" and sub = "''contrib/demo''"
      and pre = True and ?st0.0 = demo_start and e = e]
  have test: "test_contrib ?ev (''demo'', ''contrib/demo'') True demo_start = (Inl e, demo_probed)"
    using test_thm demo_layout [of ?m "[example_record]" 1070]
      demo_load [of ?m "[example_record]" 1070] exports bad by blast
  show ?thesis using i1 i2 i3 i4 v s bad test good by blast
qed

section \<open>Check 5: the optional functions\<close>

lemma try_else_accepted:
  "(\<And>v. els v = Inr () \<longleftrightarrow> contract v) \<Longrightarrow>
     try_else r els = Inr () \<longleftrightarrow> spec_accepted contract r"
  by (cases r) (simp_all add: try_else_def spec_accepted_def)

lemma probe_states:
  "snd (probe_forward_jacobian m model st) =
     (if ''forward'' \<in> set (attrs m) then st\<lparr>calls := calls st @ [Forward model True]\<rparr> else st)"
  "snd (probe_jacobian m model st) =
     (if ''jacobian'' \<in> set (attrs m) then st\<lparr>calls := calls st @ [Jacobian model]\<rparr> else st)"
  "snd (probe_plot_model m model st) =
     (if ''plot_model'' \<in> set (attrs m) then st\<lparr>calls := calls st @ [PlotModel model]\<rparr> else st)"
  "snd (probe_plot_data m data st) =
     (if ''plot_data'' \<in> set (attrs m) then st\<lparr>calls := calls st @ [PlotData data]\<rparr> else st)"
  by (simp_all add: probe_forward_jacobian_def probe_jacobian_def probe_plot_model_def
      probe_plot_data_def invoke_def)

lemma and_then_fst_Inr:
  "fst (and_then f g st) = Inr b \<longleftrightarrow> (\<exists>a. fst (f st) = Inr a \<and> fst (g a (snd (f st))) = Inr b)"
  by (cases "f st") (auto simp: and_then_def split: sum.splits)

lemma probe_optional_iff:
  "fst (probe_optional m model data st) = Inr () \<longleftrightarrow>
     fst (probe_forward_jacobian m model st) = Inr () \<and>
     fst (probe_jacobian m model (snd (probe_forward_jacobian m model st))) = Inr () \<and>
     fst (probe_plot_model m model
            (snd (probe_jacobian m model (snd (probe_forward_jacobian m model st))))) = Inr () \<and>
     fst (probe_plot_data m data
            (snd (probe_plot_model m model
               (snd (probe_jacobian m model (snd (probe_forward_jacobian m model st))))))) = Inr ()"
  by (simp add: probe_optional_def and_then_fst_Inr)

lemma unpack2_cases:
  "unpack2 v = Inr (a, b) \<longleftrightarrow> py_items v = Inr [a, b]"
  by (auto simp: unpack2_def split: sum.splits list.splits)

lemma try_else_unpack_accepted:
  "try_else (bind_r r unpack2)
       (\<lambda>(synthetics, jacobian).
          bind_r (assert_array_like synthetics) (\<lambda>_. assert_array_like jacobian)) = Inr ()
     \<longleftrightarrow> spec_accepted two_array_likes r \<or> unpacking_signals r"
proof (cases r)
  case (Inl e)
  then show ?thesis by (simp add: try_else_def spec_accepted_def unpacking_signals_def)
next
  case (Inr v)
  show ?thesis
  proof (cases "py_items v")
    case (Inl e)
    then show ?thesis using \<open>r = Inr v\<close>
      by (auto simp: try_else_def spec_accepted_def unpacking_signals_def two_array_likes_def
          unpack2_def)
  next
    case items: (Inr items)
    show ?thesis
    proof (cases "unpack2 v")
      case (Inl e)
      then have "e = ValueError" "\<not> two_array_likes v"
        using items by (auto simp: unpack2_def two_array_likes_def split: list.splits)
      then show ?thesis using Inl items \<open>r = Inr v\<close>
        by (simp add: try_else_def spec_accepted_def unpacking_signals_def)
    next
      case (Inr p)
      obtain a b where p: "p = (a, b)" by (cases p)
      then have "py_items v = Inr [a, b]" using Inr by (simp add: unpack2_cases)
      then show ?thesis using Inr p \<open>r = Inr v\<close>
        by (simp add: try_else_def spec_accepted_def unpacking_signals_def two_array_likes_def
            bind_r_eq_Inr assert_array_like_iff)
    qed
  qed
qed

lemma probe_forward_jacobian_iff:
  "fst (probe_forward_jacobian m model st) = Inr () \<longleftrightarrow>
     (''forward'' \<in> set (attrs m) \<and>
      (spec_accepted two_array_likes (respond m (calls st) (Forward model True)) \<or>
       unpacking_signals (respond m (calls st) (Forward model True)))) \<or>
     lookup_signals m ''forward''"
proof (cases "''forward'' \<in> set (attrs m)")
  case True
  then show ?thesis
    by (simp add: probe_forward_jacobian_def invoke_def try_else_unpack_accepted
        lookup_signals_def)
next
  case False
  then show ?thesis
    by (simp add: probe_forward_jacobian_def invoke_def try_else_def lookup_signals_def)
qed

lemma probe_jacobian_iff:
  "fst (probe_jacobian m model st) = Inr () \<longleftrightarrow>
     (''jacobian'' \<in> set (attrs m) \<and>
      spec_accepted is_array_like (respond m (calls st) (Jacobian model))) \<or>
     lookup_signals m ''jacobian''"
proof (cases "''jacobian'' \<in> set (attrs m)")
  case True
  then show ?thesis
    by (simp add: probe_jacobian_def invoke_def try_else_accepted assert_array_like_iff
        lookup_signals_def)
next
  case False
  then show ?thesis
    by (simp add: probe_jacobian_def invoke_def try_else_def lookup_signals_def)
qed

lemma probe_plot_model_iff:
  "fst (probe_plot_model m model st) = Inr () \<longleftrightarrow>
     (''plot_model'' \<in> set (attrs m) \<and>
      spec_accepted is_Figure (respond m (calls st) (PlotModel model))) \<or>
     lookup_signals m ''plot_model''"
proof (cases "''plot_model'' \<in> set (attrs m)")
  case True
  then show ?thesis
    by (simp add: probe_plot_model_def invoke_def try_else_accepted lookup_signals_def)
next
  case False
  then show ?thesis
    by (simp add: probe_plot_model_def invoke_def try_else_def lookup_signals_def)
qed

lemma probe_plot_data_iff:
  "fst (probe_plot_data m data st) = Inr () \<longleftrightarrow>
     (''plot_data'' \<in> set (attrs m) \<and>
      spec_accepted is_Figure (respond m (calls st) (PlotData data))) \<or>
     lookup_signals m ''plot_data''"
proof (cases "''plot_data'' \<in> set (attrs m)")
  case True
  then show ?thesis
    by (simp add: probe_plot_data_def invoke_def try_else_accepted lookup_signals_def)
next
  case False
  then show ?thesis
    by (simp add: probe_plot_data_def invoke_def try_else_def lookup_signals_def)
qed

text \<open>
  Claim C2, as stated, fails. Each probe is one statement inside \<^verbatim>\<open>try\<close>, so a
  \<^verbatim>\<open>NotImplementedError\<close> is swallowed wherever in that statement it arises. When
  \<^verbatim>\<open>forward(model, with_jacobian=True)\<close> returns a value whose iteration raises it, the
  call has succeeded, its result is not two array-like parts, and yet the probe and the
  whole test pass. When the lookup of \<^verbatim>\<open>jacobian\<close> itself raises it, the probe passes
  without any call being made.
\<close>

theorem swallowed_signal_counterexample:
  "respond lazy_pair_module (calls demo_probed) (Forward py_vector True) = Inr py_lazy \<and>
   two_array_likes py_lazy = False \<and>
   spec_accepted two_array_likes
     (respond lazy_pair_module (calls demo_probed) (Forward py_vector True)) = False \<and>
   fst (probe_forward_jacobian lazy_pair_module py_vector demo_probed) = Inr () \<and>
   fst (test_contrib (demo_env lazy_pair_module [example_record] 1070)
          (''demo'', ''contrib/demo'') True demo_start) = Inr () \<and>
   ''jacobian'' \<notin> set (attrs stub_getattr_module) \<and>
   probe_jacobian stub_getattr_module py_vector demo_probed = (Inr (), demo_probed) \<and>
   fst (test_contrib (demo_env stub_getattr_module [example_record] 1070)
          (''demo'', ''contrib/demo'') True demo_start) = Inr ()"
  by (simp add: check_defs demo_defs spec_accepted_def two_array_likes_def is_array_like_def)

text \<open>
  Claim C2, amended. An optional probe passes exactly in these cases: the symbol exists
  and the call raised \<^verbatim>\<open>NotImplementedError\<close>; the symbol exists and the call returned
  a value meeting its contract (two array-like parts for
  \<^verbatim>\<open>forward(model, with_jacobian=True)\<close>, an array-like value for \<^verbatim>\<open>jacobian\<close>, a
  \<^verbatim>\<open>Figure\<close> for the plot functions); for \<^verbatim>\<open>forward\<close>, the call returned a value
  whose unpacking raised \<^verbatim>\<open>NotImplementedError\<close>; or the lookup of the symbol raised
  \<^verbatim>\<open>NotImplementedError\<close>. Every other outcome fails the probe: any other exception
  of the lookup (an absent symbol gives \<^verbatim>\<open>AttributeError\<close>), of the call or of the
  unpacking, and any returned value that misses its contract. The prober never tests
  for the symbol: whenever the lookup succeeds the call is made and recorded, and when it
  raises no call is made. The four probes run in sequence, all must pass, and a failure
  among them fails the test.
\<close>

theorem optional_probe_signal_or_contract:
  "(fst (probe_forward_jacobian m model st) = Inr () \<longleftrightarrow>
      (''forward'' \<in> set (attrs m) \<and>
       (spec_accepted two_array_likes (respond m (calls st) (Forward model True)) \<or>
        unpacking_signals (respond m (calls st) (Forward model True)))) \<or>
      lookup_signals m ''forward'') \<and>
   (fst (probe_jacobian m model st) = Inr () \<longleftrightarrow>
      (''jacobian'' \<in> set (attrs m) \<and>
       spec_accepted is_array_like (respond m (calls st) (Jacobian model))) \<or>
      lookup_signals m ''jacobian'') \<and>
   (fst (probe_plot_model m model st) = Inr () \<longleftrightarrow>
      (''plot_model'' \<in> set (attrs m) \<and>
       spec_accepted is_Figure (respond m (calls st) (PlotModel model))) \<or>
      lookup_signals m ''plot_model'') \<and>
   (fst (probe_plot_data m data st) = Inr () \<longleftrightarrow>
      (''plot_data'' \<in> set (attrs m) \<and>
       spec_accepted is_Figure (respond m (calls st) (PlotData data))) \<or>
      lookup_signals m ''plot_data'') \<and>
   snd (probe_forward_jacobian m model st) =
     (if ''forward'' \<in> set (attrs m) then st\<lparr>calls := calls st @ [Forward model True]\<rparr> else st) \<and>
   snd (probe_jacobian m model st) =
     (if ''jacobian'' \<in> set (attrs m) then st\<lparr>calls := calls st @ [Jacobian model]\<rparr> else st) \<and>
   snd (probe_plot_model m model st) =
     (if ''plot_model'' \<in> set (attrs m) then st\<lparr>calls := calls st @ [PlotModel model]\<rparr> else st) \<and>
   snd (probe_plot_data m data st) =
     (if ''plot_data'' \<in> set (attrs m) then st\<lparr>calls := calls st @ [PlotData data]\<rparr> else st) \<and>
   (fst (probe_optional m model data st) = Inr () \<longleftrightarrow>
     fst (probe_forward_jacobian m model st) = Inr () \<and>
     fst (probe_jacobian m model (snd (probe_forward_jacobian m model st))) = Inr () \<and>
     fst (probe_plot_model m model
            (snd (probe_jacobian m model (snd (probe_forward_jacobian m model st))))) = Inr () \<and>
     fst (probe_plot_data m data
            (snd (probe_plot_model m model
               (snd (probe_jacobian m model (snd (probe_forward_jacobian m model st))))))) = Inr ()) \<and>
   (check_layout (files ev) name sub = Inr () \<longrightarrow>
    load_module ev name pre st0 = (Inr m, st1) \<longrightarrow>
    check_exports m = Inr () \<longrightarrow>
    probe_required m st1 = (Inr (model, data), st) \<longrightarrow>
    probe_optional m model data st = (Inl e, st') \<longrightarrow>
      test_contrib ev (name, sub) pre st0 = (Inl e, st'))"
proof (intro conjI)
  show "fst (probe_forward_jacobian m model st) = Inr () \<longleftrightarrow>
      (''forward'' \<in> set (attrs m) \<and>
       (spec_accepted two_array_likes (respond m (calls st) (Forward model True)) \<or>
        unpacking_signals (respond m (calls st) (Forward model True)))) \<or>
      lookup_signals m ''forward''"
    by (rule probe_forward_jacobian_iff)
  show "fst (probe_jacobian m model st) = Inr () \<longleftrightarrow>
      (''jacobian'' \<in> set (attrs m) \<and>
       spec_accepted is_array_like (respond m (calls st) (Jacobian model))) \<or>
      lookup_signals m ''jacobian''"
    by (rule probe_jacobian_iff)
  show "fst (probe_plot_model m model st) = Inr () \<longleftrightarrow>
      (''plot_model'' \<in> set (attrs m) \<and>
       spec_accepted is_Figure (respond m (calls st) (PlotModel model))) \<or>
      lookup_signals m ''plot_model''"
    by (rule probe_plot_model_iff)
  show "fst (probe_plot_data m data st) = Inr () \<longleftrightarrow>
      (''plot_data'' \<in> set (attrs m) \<and>
       spec_accepted is_Figure (respond m (calls st) (PlotData data))) \<or>
      lookup_signals m ''plot_data''"
    by (rule probe_plot_data_iff)
  show "snd (probe_forward_jacobian m model st) =
     (if ''forward'' \<in> set (attrs m) then st\<lparr>calls := calls st @ [Forward model True]\<rparr> else st)"
    by (rule probe_states)
  show "snd (probe_jacobian m model st) =
     (if ''jacobian'' \<in> set (attrs m) then st\<lparr>calls := calls st @ [Jacobian model]\<rparr> else st)"
    by (rule probe_states)
  show "snd (probe_plot_model m model st) =
     (if ''plot_model'' \<in> set (attrs m) then st\<lparr>calls := calls st @ [PlotModel model]\<rparr> else st)"
    by (rule probe_states)
  show "snd (probe_plot_data m data st) =
     (if ''plot_data'' \<in> set (attrs m) then st\<lparr>calls := calls st @ [PlotData data]\<rparr> else st)"
    by (rule probe_states)
  show "fst (probe_optional m model data st) = Inr () \<longleftrightarrow>
     fst (probe_forward_jacobian m model st) = Inr () \<and>
     fst (probe_jacobian m model (snd (probe_forward_jacobian m model st))) = Inr () \<and>
     fst (probe_plot_model m model
            (snd (probe_jacobian m model (snd (probe_forward_jacobian m model st))))) = Inr () \<and>
     fst (probe_plot_data m data
            (snd (probe_plot_model m model
               (snd (probe_jacobian m model (snd (probe_forward_jacobian m model st))))))) = Inr ()"
    by (rule probe_optional_iff)
  show "check_layout (files ev) name sub = Inr () \<longrightarrow>
    load_module ev name pre st0 = (Inr m, st1) \<longrightarrow>
    check_exports m = Inr () \<longrightarrow>
    probe_required m st1 = (Inr (model, data), st) \<longrightarrow>
    probe_optional m model data st = (Inl e, st') \<longrightarrow>
      test_contrib ev (name, sub) pre st0 = (Inl e, st')"
    by (simp add: test_contrib_def and_then_def pure_step_def)
qed

theorem optional_probe_signal_or_contract_witness:
  "fst (probe_jacobian demo_module py_vector demo_probed) = Inr () \<and>
   snd (probe_jacobian demo_module py_vector demo_probed)
     = demo_probed\<lparr>calls := calls demo_probed @ [Jacobian py_vector]\<rparr> \<and>
   fst (probe_forward_jacobian full_module py_vector demo_probed) = Inr () \<and>
   fst (probe_forward_jacobian lazy_pair_module py_vector demo_probed) = Inr () \<and>
   fst (probe_plot_model full_module py_vector demo_probed) = Inr () \<and>
   fst (probe_plot_model axes_plot_module py_vector demo_probed) \<noteq> Inr () \<and>
   fst (probe_jacobian raising_jacobian_module py_vector demo_probed) \<noteq> Inr () \<and>
   fst (probe_jacobian no_jacobian_module py_vector demo_probed) \<noteq> Inr () \<and>
   snd (probe_jacobian no_jacobian_module py_vector demo_probed) = demo_probed \<and>
   fst (probe_jacobian stub_getattr_module py_vector demo_probed) = Inr () \<and>
   snd (probe_jacobian stub_getattr_module py_vector demo_probed) = demo_probed \<and>
   fst (probe_optional full_module py_vector py_vector demo_probed) = Inr () \<and>
   probe_optional raising_jacobian_module py_vector py_vector demo_probed
     = (Inl ValueError,
        demo_probed\<lparr>calls := calls demo_probed @ [Forward py_vector True, Jacobian py_vector]\<rparr>) \<and>
   test_contrib (demo_env raising_jacobian_module [example_record] 1070)
       (''demo'', ''contrib/demo'') True demo_start
     = (Inl ValueError,
        demo_probed\<lparr>calls := calls demo_probed @ [Forward py_vector True, Jacobian py_vector]\<rparr>)"
proof -
  let ?bad = raising_jacobian_module
  let ?ev = "demo_env raising_jacobian_module [example_record] 1070"
  let ?end = "demo_probed\<lparr>calls := calls demo_probed @ [Forward py_vector True, Jacobian py_vector]\<rparr>"
  have a1: "''jacobian'' \<in> set (attrs demo_module)"
    and a2: "spec_accepted is_array_like (respond demo_module (calls demo_probed) (Jacobian py_vector))"
    by (simp_all add: demo_module_def std_funcs_def demo_respond_def spec_accepted_def)
  note demo_thm = optional_probe_signal_or_contract [where m = demo_module and model = py_vector
      and st = demo_probed]
  have c1: "fst (probe_jacobian demo_module py_vector demo_probed) = Inr ()"
    using demo_thm a1 a2 by blast
  have c2: "snd (probe_jacobian demo_module py_vector demo_probed)
     = demo_probed\<lparr>calls := calls demo_probed @ [Jacobian py_vector]\<rparr>"
    using demo_thm a1 by simp
  have f1: "''forward'' \<in> set (attrs full_module)" "''plot_model'' \<in> set (attrs full_module)"
    and f2: "spec_accepted two_array_likes
               (respond full_module (calls demo_probed) (Forward py_vector True))"
    and f3: "spec_accepted is_Figure (respond full_module (calls demo_probed) (PlotModel py_vector))"
    by (simp_all add: full_module_def std_funcs_def full_respond_def spec_accepted_def
        two_array_likes_def py_pair_def is_array_like_def py_vector_def py_matrix_def py_figure_def)
  note full_thm = optional_probe_signal_or_contract [where m = full_module and model = py_vector
      and st = demo_probed]
  have c3: "fst (probe_forward_jacobian full_module py_vector demo_probed) = Inr ()"
    using full_thm f1 f2 by blast
  have c4: "fst (probe_plot_model full_module py_vector demo_probed) = Inr ()"
    using full_thm f1 f3 by blast
  have z1: "''forward'' \<in> set (attrs lazy_pair_module)"
    and z2: "unpacking_signals (respond lazy_pair_module (calls demo_probed) (Forward py_vector True))"
    by (simp_all add: lazy_pair_module_def full_module_def std_funcs_def unpacking_signals_def
        py_lazy_def)
  have c3': "fst (probe_forward_jacobian lazy_pair_module py_vector demo_probed) = Inr ()"
    using optional_probe_signal_or_contract [where m = lazy_pair_module and model = py_vector
        and st = demo_probed] z1 z2 by blast
  have x0: "''plot_model'' \<in> set (attrs axes_plot_module)"
    and x1: "\<not> spec_accepted is_Figure
               (respond axes_plot_module (calls demo_probed) (PlotModel py_vector))"
    by (simp_all add: axes_plot_module_def full_module_def std_funcs_def spec_accepted_def
        py_vector_def)
  have x2: "\<not> lookup_signals axes_plot_module ''plot_model''"
    using x0 by (simp add: lookup_signals_def)
  have c5: "fst (probe_plot_model axes_plot_module py_vector demo_probed) \<noteq> Inr ()"
    using optional_probe_signal_or_contract [where m = axes_plot_module and model = py_vector
        and st = demo_probed] x1 x2 by blast
  have r0: "''jacobian'' \<in> set (attrs ?bad)"
    and r1: "\<not> spec_accepted is_array_like
               (respond ?bad (calls demo_probed) (Jacobian py_vector))"
    by (simp_all add: raising_jacobian_module_def full_module_def std_funcs_def spec_accepted_def)
  have r2: "\<not> lookup_signals ?bad ''jacobian''"
    using r0 by (simp add: lookup_signals_def)
  have c6: "fst (probe_jacobian ?bad py_vector demo_probed) \<noteq> Inr ()"
    using optional_probe_signal_or_contract [where m = ?bad and model = py_vector
        and st = demo_probed] r1 r2 by blast
  have n1: "''jacobian'' \<notin> set (attrs no_jacobian_module)"
    and n2: "\<not> lookup_signals no_jacobian_module ''jacobian''"
    by (simp_all add: no_jacobian_module_def full_module_def lookup_signals_def)
  note absent_thm = optional_probe_signal_or_contract [where m = no_jacobian_module
      and model = py_vector and st = demo_probed]
  have c7: "fst (probe_jacobian no_jacobian_module py_vector demo_probed) \<noteq> Inr ()"
    using absent_thm n1 n2 by blast
  have c8: "snd (probe_jacobian no_jacobian_module py_vector demo_probed) = demo_probed"
    using absent_thm n1 by simp
  have g1: "''jacobian'' \<notin> set (attrs stub_getattr_module)"
    and g2: "lookup_signals stub_getattr_module ''jacobian''"
    by (simp_all add: stub_getattr_module_def no_jacobian_module_def full_module_def
        lookup_signals_def)
  note stub_thm = optional_probe_signal_or_contract [where m = stub_getattr_module
      and model = py_vector and st = demo_probed]
  have c7': "fst (probe_jacobian stub_getattr_module py_vector demo_probed) = Inr ()"
    using stub_thm g2 by blast
  have c8': "snd (probe_jacobian stub_getattr_module py_vector demo_probed) = demo_probed"
    using stub_thm g1 by simp
  have c9: "fst (probe_optional full_module py_vector py_vector demo_probed) = Inr ()"
    by (simp add: check_defs demo_defs)
  have c10: "probe_optional ?bad py_vector py_vector demo_probed = (Inl ValueError, ?end)"
    by (simp add: check_defs demo_defs is_array_like_def)
  have exports: "check_exports ?bad = Inr ()"
    by (simp add: check_exports_def std_funcs_def raising_jacobian_module_def full_module_def
        assert_in_def)
  have req: "probe_required ?bad demo_loaded = (Inr (py_vector, py_vector), demo_probed)"
    by (simp add: check_defs demo_defs)
  note test_thm = optional_probe_signal_or_contract [where m = ?bad and model = py_vector
      and data = py_vector and st = demo_probed and ev = ?ev and name = "''demo''"
      and sub = "''contrib/demo''" and pre = True and ?st0.0 = demo_start
      and ?st1.0 = demo_loaded and e = ValueError and st' = ?end]
  have c11: "test_contrib ?ev (''demo'', ''contrib/demo'') True demo_start = (Inl ValueError, ?end)"
    using test_thm demo_layout [of ?bad "[example_record]" 1070]
      demo_load [of ?bad "[example_record]" 1070] exports req c10 by blast
  show ?thesis using c1 c2 c3 c3' c4 c5 c6 c7 c8 c7' c8' c9 c10 c11 by blast
qed

section \<open>Check 7: the example-count cross-check\<close>

lemma invoke_present:
  "call_name c \<in> set (attrs m) \<Longrightarrow>
     invoke m c st = (respond m (calls st) c, st\<lparr>calls := calls st @ [c]\<rparr>)"
  by (simp add: invoke_def)

lemma for_range_all_ok:
  assumes "''set_example_number'' \<in> set (attrs m)"
      and "\<forall>j<length is. \<exists>v. respond m (calls st @ map SetExampleNumber (take j is))
                                  (SetExampleNumber (is ! j)) = Inr v"
  shows "for_range (\<lambda>i. invoke m (SetExampleNumber i)) is st =
           (Inr (), st\<lparr>calls := calls st @ map SetExampleNumber is\<rparr>)"
  using assms(2)
proof (induction "is" arbitrary: st)
  case Nil
  then show ?case by simp
next
  case (Cons i "is")
  from Cons.prems have "\<exists>v. respond m (calls st) (SetExampleNumber i) = Inr v"
    by force
  then obtain v where v: "respond m (calls st) (SetExampleNumber i) = Inr v" by blast
  let ?st1 = "st\<lparr>calls := calls st @ [SetExampleNumber i]\<rparr>"
  have step: "invoke m (SetExampleNumber i) st = (Inr v, ?st1)"
    using assms(1) v by (simp add: invoke_def)
  have "\<forall>j<length is. \<exists>v. respond m (calls ?st1 @ map SetExampleNumber (take j is))
                                  (SetExampleNumber (is ! j)) = Inr v"
  proof (intro allI impI)
    fix j assume "j < length is"
    then have "Suc j < length (i # is)" by simp
    from Cons.prems [rule_format, OF this]
    show "\<exists>v. respond m (calls ?st1 @ map SetExampleNumber (take j is))
                 (SetExampleNumber (is ! j)) = Inr v"
      by simp
  qed
  from Cons.IH [OF this] show ?case
    using step by simp
qed

lemma for_range_first_failure:
  assumes "''set_example_number'' \<in> set (attrs m)"
      and "j < length is"
      and "respond m (calls st @ map SetExampleNumber (take j is)) (SetExampleNumber (is ! j)) = Inl e"
      and "\<forall>i<j. \<exists>v. respond m (calls st @ map SetExampleNumber (take i is))
                          (SetExampleNumber (is ! i)) = Inr v"
  shows "for_range (\<lambda>i. invoke m (SetExampleNumber i)) is st =
           (Inl e, st\<lparr>calls := calls st @ map SetExampleNumber (take (Suc j) is)\<rparr>)"
  using assms(2-4)
proof (induction "is" arbitrary: st j)
  case Nil
  then show ?case by simp
next
  case (Cons i "is")
  let ?st1 = "st\<lparr>calls := calls st @ [SetExampleNumber i]\<rparr>"
  show ?case
  proof (cases j)
    case 0
    then have "respond m (calls st) (SetExampleNumber i) = Inl e"
      using Cons.prems(2) by simp
    then show ?thesis using assms(1) 0 by (simp add: invoke_def)
  next
    case (Suc j')
    from Cons.prems(3) Suc have "\<exists>v. respond m (calls st) (SetExampleNumber i) = Inr v"
      by force
    then obtain v where v: "respond m (calls st) (SetExampleNumber i) = Inr v" by blast
    have step: "invoke m (SetExampleNumber i) st = (Inr v, ?st1)"
      using assms(1) v by (simp add: invoke_def)
    have a: "j' < length is" using Cons.prems(1) Suc by simp
    have b: "respond m (calls ?st1 @ map SetExampleNumber (take j' is))
               (SetExampleNumber (is ! j')) = Inl e"
      using Cons.prems(2) Suc by simp
    have c: "\<forall>k<j'. \<exists>v. respond m (calls ?st1 @ map SetExampleNumber (take k is))
                          (SetExampleNumber (is ! k)) = Inr v"
    proof (intro allI impI)
      fix k assume "k < j'"
      then have "Suc k < j" using Suc by simp
      from Cons.prems(3) [rule_format, OF this]
      show "\<exists>v. respond m (calls ?st1 @ map SetExampleNumber (take k is))
                   (SetExampleNumber (is ! k)) = Inr v"
        by simp
    qed
    from Cons.IH [OF a b c] show ?thesis
      using step Suc by simp
  qed
qed

lemma for_range_trace:
  "\<exists>k\<le>length is. snd (for_range (\<lambda>i. invoke m (SetExampleNumber i)) is st) =
           st\<lparr>calls := calls st @ map SetExampleNumber (take k is)\<rparr>"
proof (induction "is" arbitrary: st)
  case Nil
  then show ?case by simp
next
  case (Cons i "is")
  show ?case
  proof (cases "invoke m (SetExampleNumber i) st")
    case (Pair r st1)
    show ?thesis
    proof (cases r)
      case (Inl e)
      show ?thesis
      proof (cases "''set_example_number'' \<in> set (attrs m)")
        case True
        then have "snd (for_range (\<lambda>i. invoke m (SetExampleNumber i)) (i # is) st) =
           st\<lparr>calls := calls st @ map SetExampleNumber (take 1 (i # is))\<rparr>"
          using Pair Inl by (auto simp: invoke_def)
        then show ?thesis by (intro exI [of _ 1]) simp
      next
        case False
        then have "snd (for_range (\<lambda>i. invoke m (SetExampleNumber i)) (i # is) st) =
           st\<lparr>calls := calls st @ map SetExampleNumber (take 0 (i # is))\<rparr>"
          using Pair Inl by (auto simp: invoke_def)
        then show ?thesis by (intro exI [of _ 0]) simp
      qed
    next
      case (Inr v)
      then have st1: "st1 = st\<lparr>calls := calls st @ [SetExampleNumber i]\<rparr>"
        using Pair by (auto simp: invoke_def split: if_splits)
      from Cons.IH [of st1] obtain k where k: "k \<le> length is"
        "snd (for_range (\<lambda>i. invoke m (SetExampleNumber i)) is st1) =
           st1\<lparr>calls := calls st1 @ map SetExampleNumber (take k is)\<rparr>"
        by blast
      have "snd (for_range (\<lambda>i. invoke m (SetExampleNumber i)) (i # is) st) =
           st\<lparr>calls := calls st @ map SetExampleNumber (take (Suc k) (i # is))\<rparr>"
        using Pair Inr k(2) st1 by simp
      then show ?thesis using k(1) by (intro exI [of _ "Suc k"]) simp
    qed
  qed
qed

lemma cross_check_all_ok:
  assumes "''set_example_number'' \<in> set (attrs m)"
      and "\<forall>i<n. \<exists>v. respond m (calls st @ map SetExampleNumber [0..<i]) (SetExampleNumber i) = Inr v"
  shows "cross_check m n st = (Inr (), st\<lparr>calls := calls st @ map SetExampleNumber [0..<n]\<rparr>)"
  unfolding cross_check_def
  by (rule for_range_all_ok [OF assms(1)]) (use assms(2) in \<open>simp add: take_upt\<close>)

lemma cross_check_first_failure:
  assumes "''set_example_number'' \<in> set (attrs m)"
      and "j < n"
      and "respond m (calls st @ map SetExampleNumber [0..<j]) (SetExampleNumber j) = Inl e"
      and "\<forall>i<j. \<exists>v. respond m (calls st @ map SetExampleNumber [0..<i]) (SetExampleNumber i) = Inr v"
  shows "cross_check m n st = (Inl e, st\<lparr>calls := calls st @ map SetExampleNumber [0..<Suc j]\<rparr>)"
proof -
  have "for_range (\<lambda>i. invoke m (SetExampleNumber i)) [0..<n] st =
           (Inl e, st\<lparr>calls := calls st @ map SetExampleNumber (take (Suc j) [0..<n])\<rparr>)"
    by (rule for_range_first_failure [OF assms(1)]) (use assms(2-4) in \<open>simp_all add: take_upt\<close>)
  then show ?thesis using assms(2) by (simp add: cross_check_def take_upt)
qed

lemma cross_check_trace:
  "\<exists>k\<le>n. snd (cross_check m n st) = st\<lparr>calls := calls st @ map SetExampleNumber [0..<k]\<rparr>"
proof -
  from for_range_trace [of "[0..<n]" m st] obtain k where
    "k \<le> n" "snd (cross_check m n st) =
       st\<lparr>calls := calls st @ map SetExampleNumber (take k [0..<n])\<rparr>"
    by (auto simp: cross_check_def)
  then show ?thesis by (intro exI [of _ k]) (simp add: take_upt)
qed

lemma checks_1_to_5_attr:
  assumes "checks_1_to_5 ev (name, sub) pre st = (Inr m, st5)"
  shows "''set_example_number'' \<in> set (attrs m)"
proof -
  from assms obtain st1 model data st2 where
    "probe_required m st1 = (Inr (model, data), st2)"
    by (auto simp: checks_1_to_5_def and_then_eq_Inr)
  from probe_required_Inr_D [OF this] obtain none s1 where
    "invoke m (SetExampleNumber 0) st1 = (Inr none, s1)" by blast
  from invoke_Inr_D [OF this] show ?thesis by simp
qed

lemma check_metadata_count:
  assumes "check_metadata fs sub = Inr n"
  shows "\<exists>doc examples. safe_load fs (sub @ ''/metadata.yml'') = Inr doc \<and>
           py_getitem doc ''examples'' = Inr examples \<and> py_len examples = Inr n"
  using assms
  by (auto simp: check_metadata_def check_required_keys_def bind_r_eq_Inr)

text \<open>
  Claim C3. When checks 1 to 5 have passed and the metadata check has returned \<open>n\<close>,
  then \<open>n\<close> is \<^verbatim>\<open>len\<close> of the document's \<^verbatim>\<open>examples\<close>, and the calls the rest of the
  test makes are \<^verbatim>\<open>set_example_number(0)\<close>, ..., \<^verbatim>\<open>set_example_number(k - 1)\<close> in this
  order for some \<open>k \<le> n\<close>, and nothing else: no index is skipped, repeated or out of
  \<open>[0, n)\<close>. When every one of these calls returns, all \<open>n\<close> are made and the test goes on
  to the licence check. When the call for \<open>j\<close> is the first to raise, the test fails with
  that exception right after it.
\<close>

theorem cross_check_calls_each_example:
  assumes "checks_1_to_5 ev (name, sub) pre st = (Inr m, st5)"
      and "check_metadata (files ev) sub = Inr n"
  shows "(\<exists>doc examples. safe_load (files ev) (sub @ ''/metadata.yml'') = Inr doc \<and>
            py_getitem doc ''examples'' = Inr examples \<and> py_len examples = Inr n) \<and>
         (\<exists>k\<le>n. snd (test_contrib ev (name, sub) pre st) =
            st5\<lparr>calls := calls st5 @ map SetExampleNumber [0..<k]\<rparr>) \<and>
         ((\<forall>i<n. \<exists>v. respond m (calls st5 @ map SetExampleNumber [0..<i])
                         (SetExampleNumber i) = Inr v) \<longrightarrow>
            test_contrib ev (name, sub) pre st =
              (check_licence (files ev) sub,
               st5\<lparr>calls := calls st5 @ map SetExampleNumber [0..<n]\<rparr>)) \<and>
         (\<forall>j e. j < n \<and>
            respond m (calls st5 @ map SetExampleNumber [0..<j]) (SetExampleNumber j) = Inl e \<and>
            (\<forall>i<j. \<exists>v. respond m (calls st5 @ map SetExampleNumber [0..<i])
                          (SetExampleNumber i) = Inr v) \<longrightarrow>
            test_contrib ev (name, sub) pre st =
              (Inl e, st5\<lparr>calls := calls st5 @ map SetExampleNumber [0..<Suc j]\<rparr>))"
proof -
  have attr: "''set_example_number'' \<in> set (attrs m)"
    using assms(1) by (rule checks_1_to_5_attr)
  have shape: "test_contrib ev (name, sub) pre st =
      and_then (cross_check m n) (\<lambda>_. pure_step (check_licence (files ev) sub)) st5"
    using assms by (simp add: test_contrib_split and_then_def pure_step_def)
  have snd_shape: "snd (test_contrib ev (name, sub) pre st) = snd (cross_check m n st5)"
    unfolding shape
    by (cases "cross_check m n st5") (auto simp: and_then_def pure_step_def split: sum.splits)
  have p1: "\<exists>doc examples. safe_load (files ev) (sub @ ''/metadata.yml'') = Inr doc \<and>
            py_getitem doc ''examples'' = Inr examples \<and> py_len examples = Inr n"
    using assms(2) by (rule check_metadata_count)
  have p2: "\<exists>k\<le>n. snd (test_contrib ev (name, sub) pre st) =
            st5\<lparr>calls := calls st5 @ map SetExampleNumber [0..<k]\<rparr>"
    unfolding snd_shape by (rule cross_check_trace)
  have p3: "(\<forall>i<n. \<exists>v. respond m (calls st5 @ map SetExampleNumber [0..<i])
                         (SetExampleNumber i) = Inr v) \<longrightarrow>
            test_contrib ev (name, sub) pre st =
              (check_licence (files ev) sub,
               st5\<lparr>calls := calls st5 @ map SetExampleNumber [0..<n]\<rparr>)"
  proof
    assume "\<forall>i<n. \<exists>v. respond m (calls st5 @ map SetExampleNumber [0..<i])
                         (SetExampleNumber i) = Inr v"
    from cross_check_all_ok [OF attr this]
    show "test_contrib ev (name, sub) pre st =
              (check_licence (files ev) sub,
               st5\<lparr>calls := calls st5 @ map SetExampleNumber [0..<n]\<rparr>)"
      unfolding shape by (simp add: and_then_def pure_step_def)
  qed
  have p4: "\<forall>j e. j < n \<and>
            respond m (calls st5 @ map SetExampleNumber [0..<j]) (SetExampleNumber j) = Inl e \<and>
            (\<forall>i<j. \<exists>v. respond m (calls st5 @ map SetExampleNumber [0..<i])
                          (SetExampleNumber i) = Inr v) \<longrightarrow>
            test_contrib ev (name, sub) pre st =
              (Inl e, st5\<lparr>calls := calls st5 @ map SetExampleNumber [0..<Suc j]\<rparr>)"
  proof (intro allI impI)
    fix j e
    assume h: "j < n \<and>
            respond m (calls st5 @ map SetExampleNumber [0..<j]) (SetExampleNumber j) = Inl e \<and>
            (\<forall>i<j. \<exists>v. respond m (calls st5 @ map SetExampleNumber [0..<i])
                          (SetExampleNumber i) = Inr v)"
    from cross_check_first_failure [OF attr, of j n st5 e] h
    have "cross_check m n st5 =
            (Inl e, st5\<lparr>calls := calls st5 @ map SetExampleNumber [0..<Suc j]\<rparr>)"
      by blast
    then show "test_contrib ev (name, sub) pre st =
              (Inl e, st5\<lparr>calls := calls st5 @ map SetExampleNumber [0..<Suc j]\<rparr>)"
      unfolding shape by (simp add: and_then_def)
  qed
  show ?thesis using p1 p2 p3 p4 by blast
qed

lemma demo_checks_passed:
  "checks_1_to_5 (demo_env demo_module exs sz) (''demo'', ''contrib/demo'') True demo_start =
     (Inr demo_module, demo_checked)"
  by (simp add: demo_checks_1_to_5 demo_checked_def)

lemma demo_count:
  "check_metadata (files (demo_env m (replicate k example_record) sz)) ''contrib/demo'' = Inr k"
proof -
  have "for_each (\<lambda>example.
                bind_r (assert_in ''description'' example) (\<lambda>_.
                bind_r (assert_in ''model_dimension'' example) (\<lambda>_.
                assert_in ''data_dimension'' example))) (replicate k example_record) = Inr ()"
    by (simp add: for_each_eq_Inr example_record_def assert_in_def)
  then show ?thesis
    by (simp add: check_metadata_def safe_load_def check_required_keys_def
        check_optional_sections_def assert_in_def demo_env_def demo_files_def contrib_entries_def
        demo_metadata_def)
qed

theorem cross_check_calls_each_example_witness:
  "checks_1_to_5 (demo_env demo_module [example_record, example_record] 1070)
       (''demo'', ''contrib/demo'') True demo_start = (Inr demo_module, demo_checked) \<and>
   check_metadata (files (demo_env demo_module [example_record, example_record] 1070))
       ''contrib/demo'' = Inr 2 \<and>
   test_contrib (demo_env demo_module [example_record, example_record] 1070)
       (''demo'', ''contrib/demo'') True demo_start =
     (Inr (), demo_checked\<lparr>calls := calls demo_checked @
                [SetExampleNumber 0, SetExampleNumber 1]\<rparr>) \<and>
   check_metadata (files (demo_env demo_module [example_record, example_record, example_record] 1070))
       ''contrib/demo'' = Inr 3 \<and>
   test_contrib (demo_env demo_module [example_record, example_record, example_record] 1070)
       (''demo'', ''contrib/demo'') True demo_start =
     (Inl ValueError, demo_checked\<lparr>calls := calls demo_checked @
                [SetExampleNumber 0, SetExampleNumber 1, SetExampleNumber 2]\<rparr>)"
proof -
  let ?ev2 = "demo_env demo_module [example_record, example_record] 1070"
  let ?ev3 = "demo_env demo_module [example_record, example_record, example_record] 1070"
  have n2: "check_metadata (files ?ev2) ''contrib/demo'' = Inr 2"
    using demo_count [of demo_module 2 1070] by (simp add: numeral_2_eq_2)
  have n3: "check_metadata (files ?ev3) ''contrib/demo'' = Inr 3"
    using demo_count [of demo_module 3 1070] by (simp add: numeral_3_eq_3)
  have ok: "\<forall>i<2. \<exists>v. respond demo_module (calls demo_checked @ map SetExampleNumber [0..<i])
                         (SetExampleNumber i) = Inr v"
    by (simp add: demo_module_def demo_respond_def)
  have lic: "check_licence (files ?ev2) ''contrib/demo'' = Inr ()"
    by (simp add: check_licence_def st_size_def demo_env_def demo_files_def contrib_entries_def)
  have up2: "[0..<2] = [0, 1::nat]" and up3: "[0..<3] = [0, 1, 2::nat]"
    by (simp_all add: upt_rec)
  from cross_check_calls_each_example [OF demo_checks_passed n2] ok
  have "test_contrib ?ev2 (''demo'', ''contrib/demo'') True demo_start =
          (check_licence (files ?ev2) ''contrib/demo'',
           demo_checked\<lparr>calls := calls demo_checked @ map SetExampleNumber [0..<2]\<rparr>)"
    by blast
  then have t2: "test_contrib ?ev2 (''demo'', ''contrib/demo'') True demo_start =
     (Inr (), demo_checked\<lparr>calls := calls demo_checked @
                [SetExampleNumber 0, SetExampleNumber 1]\<rparr>)"
    by (simp add: lic up2)
  have raise: "(2::nat) < 3 \<and>
      respond demo_module (calls demo_checked @ map SetExampleNumber [0..<2]) (SetExampleNumber 2)
        = Inl ValueError \<and>
      (\<forall>i<2. \<exists>v. respond demo_module (calls demo_checked @ map SetExampleNumber [0..<i])
                         (SetExampleNumber i) = Inr v)"
    by (simp add: demo_module_def demo_respond_def)
  from cross_check_calls_each_example [OF demo_checks_passed n3] raise
  have "test_contrib ?ev3 (''demo'', ''contrib/demo'') True demo_start =
          (Inl ValueError,
           demo_checked\<lparr>calls := calls demo_checked @ map SetExampleNumber [0..<Suc 2]\<rparr>)"
    by blast
  then have t3: "test_contrib ?ev3 (''demo'', ''contrib/demo'') True demo_start =
     (Inl ValueError, demo_checked\<lparr>calls := calls demo_checked @
                [SetExampleNumber 0, SetExampleNumber 1, SetExampleNumber 2]\<rparr>)"
    by (simp add: up3)
  show ?thesis using demo_checks_passed n2 t2 n3 t3 by blast
qed

section \<open>The module resolution path\<close>

lemma and_then_keeps_path:
  assumes "\<And>s. sys_path (snd (f s)) = sys_path s"
      and "\<And>a s. sys_path (snd (g a s)) = sys_path s"
  shows "sys_path (snd (and_then f g st)) = sys_path st"
proof (cases "f st")
  case (Pair r st1)
  then have "sys_path st1 = sys_path st" using assms(1) [of st] by simp
  then show ?thesis using Pair assms(2) by (cases r) (simp_all add: and_then_def)
qed

lemma invoke_keeps_path: "sys_path (snd (invoke m c st)) = sys_path st"
  by (simp add: invoke_def)

lemma pure_step_keeps_path: "sys_path (snd (pure_step r st)) = sys_path st"
  by (simp add: pure_step_def)

lemma probe_required_keeps_path: "sys_path (snd (probe_required m st)) = sys_path st"
  unfolding probe_required_def
  by (intro and_then_keeps_path invoke_keeps_path pure_step_keeps_path)

lemma probe_optional_keeps_path: "sys_path (snd (probe_optional m model data st)) = sys_path st"
  unfolding probe_optional_def
  by (intro and_then_keeps_path) (simp_all add: probe_states)

lemma cross_check_keeps_path: "sys_path (snd (cross_check m n st)) = sys_path st"
  using cross_check_trace [of n m st] by auto

lemma after_load_keeps_path:
  "sys_path (snd (
     and_then (pure_step (check_exports contrib_mod)) (\<lambda>_.
     and_then (probe_required contrib_mod) (\<lambda>(model, data).
     and_then (probe_optional contrib_mod model data) (\<lambda>_.
     and_then (pure_step (check_metadata fs sub)) (\<lambda>n_examples.
     and_then (cross_check contrib_mod n_examples) (\<lambda>_.
     pure_step (check_licence fs sub)))))) st)) = sys_path st"
  by (intro and_then_keeps_path pure_step_keeps_path probe_required_keeps_path)
     (simp_all add: case_prod_unfold and_then_keeps_path pure_step_keeps_path
        probe_optional_keeps_path cross_check_keeps_path)

lemma test_contrib_path:
  "sys_path (snd (test_contrib ev (name, sub) pre st)) =
     (if pre \<and> check_layout (files ev) name sub = Inr ()
      then list_insert 1 CONTRIB_FOLDER (sys_path st) else sys_path st)"
proof (cases "check_layout (files ev) name sub")
  case (Inl e)
  then show ?thesis by (simp add: test_contrib_def and_then_def pure_step_def)
next
  case (Inr u)
  obtain r st1 where l: "load_module ev name pre st = (r, st1)"
    by (cases "load_module ev name pre st")
  have p: "sys_path st1 = (if pre then list_insert 1 CONTRIB_FOLDER (sys_path st) else sys_path st)"
    using l by (auto simp: load_module_def Let_def split: if_splits)
  show ?thesis
  proof (cases r)
    case (Inl e)
    then show ?thesis using Inr l p
      by (simp add: test_contrib_def and_then_def pure_step_def)
  next
    case (Inr m)
    have "test_contrib ev (name, sub) pre st =
       and_then (pure_step (check_exports m)) (\<lambda>_.
       and_then (probe_required m) (\<lambda>(model, data).
       and_then (probe_optional m model data) (\<lambda>_.
       and_then (pure_step (check_metadata (files ev) sub)) (\<lambda>n_examples.
       and_then (cross_check m n_examples) (\<lambda>_.
       pure_step (check_licence (files ev) sub)))))) st1"
      using \<open>check_layout (files ev) name sub = Inr u\<close> l Inr
      by (simp add: test_contrib_def and_then_Inr [of "load_module ev name pre" st m st1])
    then show ?thesis
      using after_load_keeps_path [of m "files ev" sub st1] p
        \<open>check_layout (files ev) name sub = Inr u\<close> by simp
  qed
qed

lemma list_insert_funpow:
  "(list_insert 1 c ^^ k) path = take 1 path @ replicate k c @ drop 1 path"
proof (induction k)
  case 0
  then show ?case by simp
next
  case (Suc k)
  have "(list_insert 1 c ^^ Suc k) path =
          list_insert 1 c (take 1 path @ replicate k c @ drop 1 path)"
    using Suc by simp
  also have "\<dots> = take 1 path @ replicate (Suc k) c @ drop 1 path"
  proof (cases path)
    case Nil
    then show ?thesis by (cases k) (simp_all add: list_insert_def replicate_append_same)
  next
    case (Cons x xs)
    then show ?thesis by (simp add: list_insert_def replicate_append_same)
  qed
  finally show ?case .
qed

lemma run_tests_path:
  assumes "pre_build argv = Inr pre"
  shows "snd (run_tests ev argv contribs path) =
     (if pre
      then (list_insert 1 CONTRIB_FOLDER ^^
              length (filter (\<lambda>(name, sub). check_layout (files ev) name sub = Inr ()) contribs)) path
      else path)"
proof (induction contribs arbitrary: path)
  case Nil
  then show ?case by simp
next
  case (Cons c contribs)
  obtain name sub where c: "c = (name, sub)" by (cases c)
  obtain r st where t: "test_contrib ev (name, sub) pre \<lparr>sys_path = path, calls = []\<rparr> = (r, st)"
    by (cases "test_contrib ev (name, sub) pre \<lparr>sys_path = path, calls = []\<rparr>")
  have p: "sys_path st = (if pre \<and> check_layout (files ev) name sub = Inr ()
      then list_insert 1 CONTRIB_FOLDER path else path)"
    using test_contrib_path [of ev name sub pre "\<lparr>sys_path = path, calls = []\<rparr>"] t by simp
  obtain rs path' where rest: "run_tests ev argv contribs (sys_path st) = (rs, path')"
    by (cases "run_tests ev argv contribs (sys_path st)")
  have "snd (run_tests ev argv (c # contribs) path) = path'"
    using assms c t rest by (simp add: run_test_def)
  moreover have "path' = (if pre
      then (list_insert 1 CONTRIB_FOLDER ^^
              length (filter (\<lambda>(name, sub). check_layout (files ev) name sub = Inr ()) contribs))
             (sys_path st)
      else sys_path st)"
    using Cons.IH [of "sys_path st"] rest by simp
  ultimately show ?case
    using p c by (simp add: funpow_swap1)
qed

text \<open>
  Claim C8, as stated, fails: the insertion is a statement of \<^verbatim>\<open>test_contrib\<close>, which
  runs once for each contribution. A pre-packaging run over two contributions inserts
  the folder twice.
\<close>

theorem path_inserted_once_counterexample:
  "all_contribs (files pair_env) =
     Inr [(''demo'', ''contrib/demo''), (''other'', ''contrib/other'')] \<and>
   pre_build [''validate.py'', ''pre''] = Inr True \<and>
   run_tests pair_env [''validate.py'', ''pre'']
       [(''demo'', ''contrib/demo''), (''other'', ''contrib/other'')] [[]]
     = ([Inr (), Inr ()], [[], ''contrib'', ''contrib''])"
  by (simp add: all_contribs_def run_test_def pre_build_def check_defs demo_defs upt_rec)

text \<open>
  Claim C8, amended. In pre-packaging mode a run inserts the contributions folder into
  \<^verbatim>\<open>sys.path\<close> at index 1 once for each contribution that passes checks 1 and 2, so
  the path ends as its first entry, that many copies of the folder, and the rest of the
  original path; nothing is removed within the run. In post-packaging mode the run leaves
  the path as it was. For a single test the path changes by one insertion exactly when
  the mode is pre-packaging and checks 1 and 2 pass. (A contribution's own code is taken
  not to touch \<^verbatim>\<open>sys.path\<close>.)
\<close>

theorem path_inserted_per_contribution:
  "(pre_build argv = Inr True \<longrightarrow>
      snd (run_tests ev argv contribs path) =
        (list_insert 1 CONTRIB_FOLDER ^^
           length (filter (\<lambda>(name, sub). check_layout (files ev) name sub = Inr ()) contribs)) path \<and>
      snd (run_tests ev argv contribs path) =
        take 1 path @
        replicate (length (filter (\<lambda>(name, sub). check_layout (files ev) name sub = Inr ())
                             contribs)) CONTRIB_FOLDER @
        drop 1 path) \<and>
   (pre_build argv = Inr False \<longrightarrow> snd (run_tests ev argv contribs path) = path) \<and>
   sys_path (snd (test_contrib ev (name, sub) pre st)) =
     (if pre \<and> check_layout (files ev) name sub = Inr ()
      then list_insert 1 CONTRIB_FOLDER (sys_path st) else sys_path st)"
proof (intro conjI impI)
  assume a: "pre_build argv = Inr True"
  from run_tests_path [OF a, of ev contribs path]
  show p: "snd (run_tests ev argv contribs path) =
        (list_insert 1 CONTRIB_FOLDER ^^
           length (filter (\<lambda>(name, sub). check_layout (files ev) name sub = Inr ()) contribs)) path"
    by simp
  show "snd (run_tests ev argv contribs path) =
        take 1 path @
        replicate (length (filter (\<lambda>(name, sub). check_layout (files ev) name sub = Inr ())
                             contribs)) CONTRIB_FOLDER @
        drop 1 path"
    unfolding p by (rule list_insert_funpow)
next
  assume a: "pre_build argv = Inr False"
  from run_tests_path [OF a, of ev contribs path]
  show "snd (run_tests ev argv contribs path) = path" by simp
next
  show "sys_path (snd (test_contrib ev (name, sub) pre st)) =
     (if pre \<and> check_layout (files ev) name sub = Inr ()
      then list_insert 1 CONTRIB_FOLDER (sys_path st) else sys_path st)"
    by (rule test_contrib_path)
qed

theorem path_inserted_per_contribution_witness:
  "pre_build [''validate.py'', ''pre''] = Inr True \<and>
   check_layout (files pair_env) ''demo'' ''contrib/demo'' = Inr () \<and>
   check_layout (files pair_env) ''other'' ''contrib/other'' = Inr () \<and>
   snd (run_tests pair_env [''validate.py'', ''pre'']
          [(''demo'', ''contrib/demo''), (''other'', ''contrib/other'')] [[], ''/usr/lib/python3''])
     = [[], ''contrib'', ''contrib'', ''/usr/lib/python3''] \<and>
   pre_build [''validate.py'', ''post''] = Inr False \<and>
   snd (run_tests pair_env [''validate.py'', ''post'']
          [(''demo'', ''contrib/demo''), (''other'', ''contrib/other'')] [[], ''/usr/lib/python3''])
     = [[], ''/usr/lib/python3'']"
proof -
  let ?cs = "[(''demo'', ''contrib/demo''), (''other'', ''contrib/other'')]"
  have a: "pre_build [''validate.py'', ''pre''] = Inr True"
    and b: "pre_build [''validate.py'', ''post''] = Inr False"
    by (simp_all add: pre_build_def)
  have l1: "check_layout (files pair_env) ''demo'' ''contrib/demo'' = Inr ()"
    and l2: "check_layout (files pair_env) ''other'' ''contrib/other'' = Inr ()"
    by (simp_all add: check_layout_def get_folder_content_def listdir_def required_files_def
        pair_env_def contrib_entries_def)
  have k: "length (filter (\<lambda>(name, sub). check_layout (files pair_env) name sub = Inr ()) ?cs) = 2"
    using l1 l2 by simp
  from path_inserted_per_contribution [of "[''validate.py'', ''pre'']" pair_env ?cs
      "[[], ''/usr/lib/python3'']"] a
  have "snd (run_tests pair_env [''validate.py'', ''pre''] ?cs [[], ''/usr/lib/python3'']) =
        take 1 [[], ''/usr/lib/python3''] @
        replicate (length (filter (\<lambda>(name, sub). check_layout (files pair_env) name sub = Inr ())
                             ?cs)) CONTRIB_FOLDER @
        drop 1 [[], ''/usr/lib/python3'']"
    by blast
  then have c: "snd (run_tests pair_env [''validate.py'', ''pre''] ?cs [[], ''/usr/lib/python3''])
     = [[], ''contrib'', ''contrib'', ''/usr/lib/python3'']"
    unfolding k by (simp add: CONTRIB_FOLDER_def numeral_2_eq_2)
  from path_inserted_per_contribution [of "[''validate.py'', ''post'']" pair_env ?cs
      "[[], ''/usr/lib/python3'']"] b
  have d: "snd (run_tests pair_env [''validate.py'', ''post''] ?cs [[], ''/usr/lib/python3''])
     = [[], ''/usr/lib/python3'']"
    by blast
  show ?thesis using a b l1 l2 c d by blast
qed

end
